theory Spec2Isabelle
  imports Complex_Main "HOL-Library.Monad_Syntax"
begin

section \<open>Utils.js: constants and geometry helpers\<close>

text \<open>
  JavaScript numbers are modelled as exact reals: rounding, infinities and NaN of
  IEEE doubles are outside the model.
\<close>

definition WIDTH :: real where
  "WIDTH = 900"

definition HEIGHT :: real where
  "HEIGHT = 540"

definition TILE :: real where
  "TILE = 30"

text \<open>\<^verbatim>\<open>clamp = (v, lo, hi) => Math.min(hi, Math.max(lo, v))\<close>\<close>

definition clamp :: "real \<Rightarrow> real \<Rightarrow> real \<Rightarrow> real" where
  "clamp v lo hi = min hi (max lo v)"

section \<open>BaseEntity.js\<close>

text \<open>Every entity owns a position, a size and the \<open>dead\<close> flag.\<close>

record entity =
  x :: real
  y :: real
  w :: real
  h :: real
  dead :: bool

text \<open>
  \<^verbatim>\<open>aabb = (a, b) => a.x < b.x + b.w && a.x + a.w > b.x && a.y < b.y + b.h && a.y + a.h > b.y\<close>
  It reads only the four geometry fields, so it applies to any two entity kinds.
\<close>

definition aabb :: "'a entity_scheme \<Rightarrow> 'b entity_scheme \<Rightarrow> bool" where
  "aabb a b \<longleftrightarrow>
     x a < x b + w b \<and> x a + w a > x b \<and> y a < y b + h b \<and> y a + h a > y b"

section \<open>Math.random\<close>

text \<open>
  \<^verbatim>\<open>Math.random()\<close> is an external source of numbers. The game state carries the
  sequence \<open>rng\<close> of values it will return and the count \<open>rng_pos\<close> of values already
  consumed, so that every draw of the source is a read of \<open>rng\<close> at the next position.
  The expression
  \<^verbatim>\<open>Math.floor(Math.random() * ((WIDTH - 2 * TILE) / TILE)) * TILE + TILE\<close>
  and its \<open>HEIGHT\<close> twin, repeated in every spawn method, are \<open>grid_x\<close> and \<open>grid_y\<close>.
\<close>

definition grid_x :: "real \<Rightarrow> real" where
  "grid_x r = of_int \<lfloor>r * ((WIDTH - 2 * TILE) / TILE)\<rfloor> * TILE + TILE"

definition grid_y :: "real \<Rightarrow> real" where
  "grid_y r = of_int \<lfloor>r * ((HEIGHT - 2 * TILE) / TILE)\<rfloor> * TILE + TILE"

section \<open>Crop.js\<close>

record crop = entity +
  type :: string
  points :: int
  sway :: real

text \<open>\<^verbatim>\<open>{ wheat: 1, pumpkin: 3, golden_apple: 5 }[type] || 1\<close>\<close>

definition crop_points :: "string \<Rightarrow> int" where
  "crop_points t =
     (case map_of [(''wheat'', 1), (''pumpkin'', 3), (''golden_apple'', 5)] t of
        None \<Rightarrow> 1
      | Some p \<Rightarrow> (if p = 0 then 1 else p))"

text \<open>The constructor; \<open>r\<close> is the value \<^verbatim>\<open>Math.random()\<close> returns for \<open>sway\<close>.\<close>

definition new_Crop :: "real \<Rightarrow> real \<Rightarrow> string \<Rightarrow> real \<Rightarrow> crop" where
  "new_Crop gx gy t r =
     \<lparr>x = gx, y = gy, w = 20, h = 26, dead = False,
      type = t, points = crop_points t, sway = r * pi * 2\<rparr>"

definition Crop_update :: "real \<Rightarrow> crop \<Rightarrow> crop" where
  "Crop_update dt c = c\<lparr>sway := sway c + dt * 2\<rparr>"

section \<open>PowerUp\<close>

text \<open>
  The class that \<open>Game.js\<close> imports from \<^verbatim>\<open>PowerUp.js\<close>; its module is the last one of
  \<^verbatim>\<open>main_basefile.js\<close>. The constructor draws one random value, for \<open>angle\<close>.
\<close>

record powerUp = entity +
  angle_powerUp :: real

definition new_PowerUp :: "real \<Rightarrow> real \<Rightarrow> real \<Rightarrow> powerUp" where
  "new_PowerUp gx gy r =
     \<lparr>x = gx, y = gy, w = 16, h = 16, dead = False, angle_powerUp = r * pi * 2\<rparr>"

definition PowerUp_update :: "real \<Rightarrow> powerUp \<Rightarrow> powerUp" where
  "PowerUp_update dt p = p\<lparr>angle_powerUp := angle_powerUp p + dt * 3\<rparr>"

section \<open>Obstacle.js\<close>

type_synonym scarecrow = entity

definition new_Scarecrow :: "real \<Rightarrow> real \<Rightarrow> scarecrow" where
  "new_Scarecrow gx gy = \<lparr>x = gx, y = gy, w = 26, h = 46, dead = False\<rparr>"

record crow = entity +
  vx_crow :: real
  vy_crow :: real
  maxSpeed :: real
  angle_crow :: real

text \<open>The constructor draws three random values: for \<open>vx\<close>, \<open>vy\<close> and \<open>angle\<close>.\<close>

definition new_Crow :: "real \<Rightarrow> real \<Rightarrow> real \<Rightarrow> real \<Rightarrow> real \<Rightarrow> crow" where
  "new_Crow gx gy r1 r2 r3 =
     \<lparr>x = gx, y = gy, w = 20, h = 20, dead = False,
      vx_crow = (r1 - 0.5) * 100, vy_crow = (r2 - 0.5) * 100,
      maxSpeed = 120, angle_crow = r3 * pi * 2\<rparr>"

text \<open>
  \<open>Crow.update\<close>: move along the heading, perturb the heading with probability 0.01
  (one draw for the test, a second one for the perturbation), reflect at the walls.
  It returns the crow and the new count of consumed random values.
\<close>

definition Crow_update :: "real \<Rightarrow> (nat \<Rightarrow> real) \<Rightarrow> crow \<Rightarrow> nat \<Rightarrow> crow \<times> nat" where
  "Crow_update dt r c i =
     (let vx' = cos (angle_crow c) * maxSpeed c;
          vy' = sin (angle_crow c) * maxSpeed c;
          c1 = c\<lparr>vx_crow := vx', vy_crow := vy', x := x c + vx' * dt, y := y c + vy' * dt\<rparr>;
          c2 = (if r i < 0.01
                then c1\<lparr>angle_crow := angle_crow c1 + (r (i + 1) - 0.5) * pi\<rparr> else c1);
          j = (if r i < 0.01 then i + 2 else i + 1);
          c3 = (if x c2 \<le> 0 \<or> x c2 \<ge> WIDTH - w c2
                then c2\<lparr>angle_crow := pi - angle_crow c2\<rparr> else c2);
          c4 = (if y c3 \<le> 0 \<or> y c3 \<ge> HEIGHT - h c3
                then c3\<lparr>angle_crow := - angle_crow c3\<rparr> else c3)
      in (c4, j))"

text \<open>\<^verbatim>\<open>this.crows.forEach(crow => crow.update(dt, this))\<close>, threading the draws.\<close>

fun update_crows :: "real \<Rightarrow> (nat \<Rightarrow> real) \<Rightarrow> crow list \<Rightarrow> nat \<Rightarrow> crow list \<times> nat" where
  "update_crows dt r [] i = ([], i)"
| "update_crows dt r (c # cs) i =
     (let (c', j) = Crow_update dt r c i;
          (cs', k) = update_crows dt r cs j
      in (c' # cs', k))"

section \<open>Farmer\<close>

record farmer = entity +
  speed :: real
  vx :: real
  vy :: real
  baseSpeed :: real
  speedBoostEnd :: real
  currentRow :: nat
  currentFrame :: nat
  frameTime :: real
  frameDuration :: real
  isMoving :: bool

definition new_Farmer :: "real \<Rightarrow> real \<Rightarrow> farmer" where
  "new_Farmer px py =
     \<lparr>x = px, y = py, w = 34, h = 34, dead = False,
      speed = 260, vx = 0, vy = 0, baseSpeed = 260, speedBoostEnd = 0,
      currentRow = 0, currentFrame = 0, frameTime = 0, frameDuration = 0.1,
      isMoving = False\<rparr>"

text \<open>
  \<open>handleInput\<close>: \<open>ks\<close> is \<^verbatim>\<open>input.keys\<close>, the set of keys held down. The booleans
  \<open>R - L\<close> and \<open>D - U\<close> subtract as 0 and 1.
\<close>

definition handleInput :: "string set \<Rightarrow> farmer \<Rightarrow> farmer" where
  "handleInput ks p =
     (let L = (''ArrowLeft'' \<in> ks); R = (''ArrowRight'' \<in> ks);
          U = (''ArrowUp'' \<in> ks); D = (''ArrowDown'' \<in> ks);
          p1 = p\<lparr>vx := (of_bool R - of_bool L) * speed p,
                 vy := (of_bool D - of_bool U) * speed p\<rparr>
      in if vx p1 \<noteq> 0 \<or> vy p1 \<noteq> 0
         then p1\<lparr>isMoving := True,
                 currentRow := (if \<bar>vy p1\<bar> > \<bar>vx p1\<bar>
                                then (if vy p1 > 0 then 0 else 3)
                                else (if vx p1 > 0 then 2 else 1))\<rparr>
         else p1\<lparr>isMoving := False, currentFrame := 0\<rparr>)"

text \<open>\<open>now\<close> is \<^verbatim>\<open>performance.now() / 1000\<close>, the clock in seconds.\<close>

definition applySpeedBoost :: "real \<Rightarrow> real \<Rightarrow> farmer \<Rightarrow> farmer" where
  "applySpeedBoost duration now p =
     p\<lparr>speed := baseSpeed p * 1.5, speedBoostEnd := now + duration\<rparr>"

text \<open>
  \<open>Farmer.update\<close>; \<open>obs\<close> is \<^verbatim>\<open>game.obstacles\<close>. The three blocks of the source are
  the boost expiry, the animation frame and the movement with its obstacle test.
\<close>

definition boost_expiry :: "real \<Rightarrow> farmer \<Rightarrow> farmer" where
  "boost_expiry now p = (if now > speedBoostEnd p then p\<lparr>speed := baseSpeed p\<rparr> else p)"

definition animate :: "real \<Rightarrow> farmer \<Rightarrow> farmer" where
  "animate dt p =
     (if isMoving p
      then (let p1 = p\<lparr>frameTime := frameTime p + dt\<rparr>
            in if frameTime p1 \<ge> frameDuration p1
               then p1\<lparr>frameTime := 0, currentFrame := (currentFrame p1 + 1) mod 4\<rparr>
               else p1)
      else p)"

definition try_move :: "real \<Rightarrow> scarecrow list \<Rightarrow> farmer \<Rightarrow> farmer" where
  "try_move dt obs p =
     (let oldX = x p; oldY = y p;
          p1 = p\<lparr>x := clamp (x p + vx p * dt) 0 (WIDTH - w p)\<rparr>;
          p2 = p1\<lparr>y := clamp (y p1 + vy p1 * dt) 0 (HEIGHT - h p1)\<rparr>;
          hitObs = list_ex (\<lambda>ob. aabb p2 ob) obs
      in if hitObs then p2\<lparr>x := oldX, y := oldY\<rparr> else p2)"

definition Farmer_update :: "real \<Rightarrow> real \<Rightarrow> scarecrow list \<Rightarrow> farmer \<Rightarrow> farmer" where
  "Farmer_update dt now obs p = try_move dt obs (animate dt (boost_expiry now p))"

section \<open>Game.js: state\<close>

text \<open>
  One record of \<^verbatim>\<open>config.levels\<close>. The file \<^verbatim>\<open>config.json\<close> is external; its
  fields are numbers, the goal a whole number of points and \<open>numScarecrows\<close> a count.
\<close>

record levelConfig =
  goal_cfg :: int
  timeLimit :: real
  spawnEvery_cfg :: real
  crowSpawnEvery_cfg :: real
  powerUpSpawnEvery_cfg :: real
  numScarecrows :: nat

text \<open>The fallback of \<open>start\<close> when \<^verbatim>\<open>config.json\<close> cannot be loaded.\<close>

definition default_levels :: "levelConfig list" where
  "default_levels =
     [\<lparr>goal_cfg = 15, timeLimit = 60, spawnEvery_cfg = 0.8, crowSpawnEvery_cfg = 5,
       powerUpSpawnEvery_cfg = 10, numScarecrows = 2\<rparr>,
      \<lparr>goal_cfg = 20, timeLimit = 55, spawnEvery_cfg = 0.6, crowSpawnEvery_cfg = 4,
       powerUpSpawnEvery_cfg = 8, numScarecrows = 3\<rparr>,
      \<lparr>goal_cfg = 25, timeLimit = 50, spawnEvery_cfg = 0.4, crowSpawnEvery_cfg = 3,
       powerUpSpawnEvery_cfg = 6, numScarecrows = 4\<rparr>]"

datatype State = MENU | PLAYING | PAUSED | GAME_OVER | WIN

text \<open>
  Reading a field of \<^verbatim>\<open>config.levels[i]\<close> when the list has no entry \<open>i\<close> throws.
\<close>

datatype error = TypeError

text \<open>
  The fields of \<open>Game\<close> that the simulation reads or writes. The canvas, the UI
  elements and the listeners are write-only sinks and are left out. \<open>levels\<close> is
  \<^verbatim>\<open>this.config.levels\<close>, \<open>keys\<close> is \<^verbatim>\<open>this.input.keys\<close>.
\<close>

record game =
  state :: State
  level :: nat
  levels :: "levelConfig list"
  requiredScore :: int
  maxTime :: real
  player :: farmer
  crops :: "crop list"
  obstacles :: "scarecrow list"
  powerUps :: "powerUp list"
  crows :: "crow list"
  lastTime :: real
  timeLeft :: real
  spawnEvery :: real
  accumSpawn :: real
  powerUpSpawnEvery :: real
  accumPowerUpSpawn :: real
  crowSpawnEvery :: real
  accumCrowSpawn :: real
  score :: int
  goal :: int
  keys :: "string set"
  rng :: "nat \<Rightarrow> real"
  rng_pos :: nat

section \<open>Game.js: spawning\<close>

definition types :: "string list" where
  "types = [''wheat'', ''pumpkin'', ''golden_apple'']"

text \<open>
  \<open>spawnCrop\<close> draws the column, the row, the type index and, in the constructor, the
  sway. An index outside the array reads \<^verbatim>\<open>undefined\<close>, for which the constructor's
  default parameter \<^verbatim>\<open>"wheat"\<close> applies.
\<close>

definition spawnCrop :: "game \<Rightarrow> game" where
  "spawnCrop g =
     (let r = rng g; i = rng_pos g;
          gx = grid_x (r i);
          gy = grid_y (r (i + 1));
          k = \<lfloor>r (i + 2) * of_nat (length types)\<rfloor>;
          t = (if 0 \<le> k \<and> k < int (length types) then types ! nat k else ''wheat'')
      in g\<lparr>crops := crops g @ [new_Crop gx gy t (r (i + 3))], rng_pos := i + 4\<rparr>)"

definition spawnPowerUp :: "game \<Rightarrow> game" where
  "spawnPowerUp g =
     (let r = rng g; i = rng_pos g;
          gx = grid_x (r i);
          gy = grid_y (r (i + 1))
      in g\<lparr>powerUps := powerUps g @ [new_PowerUp gx gy (r (i + 2))], rng_pos := i + 3\<rparr>)"

definition spawnCrow :: "game \<Rightarrow> game" where
  "spawnCrow g =
     (let r = rng g; i = rng_pos g;
          gx = grid_x (r i);
          gy = grid_y (r (i + 1))
      in g\<lparr>crows := crows g @ [new_Crow gx gy (r (i + 2)) (r (i + 3)) (r (i + 4))],
            rng_pos := i + 5\<rparr>)"

text \<open>
  The loop of \<open>resetWithConfig\<close> and \<open>advanceLevel\<close> that pushes \<open>n\<close> scarecrows at random
  grid positions.
\<close>

fun place_scarecrows :: "nat \<Rightarrow> game \<Rightarrow> game" where
  "place_scarecrows 0 g = g"
| "place_scarecrows (Suc n) g =
     place_scarecrows n
       (g\<lparr>obstacles := obstacles g @
             [new_Scarecrow (grid_x (rng g (rng_pos g))) (grid_y (rng g (rng_pos g + 1)))],
          rng_pos := rng_pos g + 2\<rparr>)"

text \<open>
  The three spawn loops of \<open>update\<close>:
  \<^verbatim>\<open>while (this._accumSpawn >= this.spawnEvery) { this._accumSpawn -= this.spawnEvery; this.spawnCrop(); }\<close>
  and its two siblings. A loop that never ends has the value \<open>None\<close>.
\<close>

partial_function (option) spawn_crops :: "game \<Rightarrow> game option" where
  "spawn_crops g =
     (if accumSpawn g \<ge> spawnEvery g
      then spawn_crops (spawnCrop (g\<lparr>accumSpawn := accumSpawn g - spawnEvery g\<rparr>))
      else Some g)"

partial_function (option) spawn_powerUps :: "game \<Rightarrow> game option" where
  "spawn_powerUps g =
     (if accumPowerUpSpawn g \<ge> powerUpSpawnEvery g
      then spawn_powerUps
             (spawnPowerUp (g\<lparr>accumPowerUpSpawn := accumPowerUpSpawn g - powerUpSpawnEvery g\<rparr>))
      else Some g)"

partial_function (option) spawn_crows :: "game \<Rightarrow> game option" where
  "spawn_crows g =
     (if accumCrowSpawn g \<ge> crowSpawnEvery g
      then spawn_crows (spawnCrow (g\<lparr>accumCrowSpawn := accumCrowSpawn g - crowSpawnEvery g\<rparr>))
      else Some g)"

section \<open>Game.js: reset, pause and level advance\<close>

definition resetWithConfig :: "levelConfig list \<Rightarrow> real \<Rightarrow> game \<Rightarrow> error + game" where
  "resetWithConfig cfg now_ms g =
     (case cfg of
        [] \<Rightarrow> Inl TypeError
      | initialConfig # _ \<Rightarrow>
          Inr (place_scarecrows (numScarecrows initialConfig)
                (g\<lparr>state := MENU, level := 1,
                   player := new_Farmer (WIDTH / 2 - 17) (HEIGHT - 80),
                   crops := [], obstacles := [], powerUps := [], crows := [],
                   score := 0,
                   requiredScore := goal_cfg initialConfig,
                   goal := goal_cfg initialConfig,
                   timeLeft := timeLimit initialConfig,
                   maxTime := timeLimit initialConfig,
                   spawnEvery := spawnEvery_cfg initialConfig,
                   crowSpawnEvery := crowSpawnEvery_cfg initialConfig,
                   powerUpSpawnEvery := powerUpSpawnEvery_cfg initialConfig,
                   accumSpawn := 0, accumPowerUpSpawn := 0, accumCrowSpawn := 0,
                   lastTime := now_ms\<rparr>)))"

definition togglePause :: "game \<Rightarrow> game" where
  "togglePause g =
     (if state g = PLAYING then g\<lparr>state := PAUSED\<rparr>
      else if state g = PAUSED then g\<lparr>state := PLAYING\<rparr>
      else g)"

text \<open>
  \<open>advanceLevel\<close>. The level is incremented first, so the entry read from the
  configuration is the one of the new level, at index \<open>level - 1\<close>.
\<close>

definition advanceLevel :: "game \<Rightarrow> error + game" where
  "advanceLevel g =
     (if level g \<ge> 3 then Inr g
      else let lv = level g + 1 in
        if length (levels g) \<le> lv - 1 then Inl TypeError
        else let levelConfig = levels g ! (lv - 1) in
          Inr (place_scarecrows (numScarecrows levelConfig)
                (g\<lparr>level := lv,
                   timeLeft := timeLimit levelConfig,
                   maxTime := timeLimit levelConfig,
                   crops := [], powerUps := [], crows := [],
                   accumSpawn := 0, accumPowerUpSpawn := 0, accumCrowSpawn := 0,
                   spawnEvery := spawnEvery_cfg levelConfig,
                   crowSpawnEvery := crowSpawnEvery_cfg levelConfig,
                   powerUpSpawnEvery := powerUpSpawnEvery_cfg levelConfig,
                   requiredScore := requiredScore g + goal_cfg levelConfig,
                   goal := requiredScore g + goal_cfg levelConfig,
                   obstacles := []\<rparr>)))"

section \<open>Game.js: update\<close>

text \<open>
  The countdown:
  \<^verbatim>\<open>this.timeLeft = Game.clamp(this.timeLeft - dt, 0, this.maxTime)\<close>.
\<close>

definition countdown :: "real \<Rightarrow> game \<Rightarrow> game" where
  "countdown dt g = g\<lparr>timeLeft := clamp (timeLeft g - dt) 0 (maxTime g)\<rparr>"

text \<open>The player block: \<open>handleInput\<close>, then \<open>Farmer.update\<close>.\<close>

definition move_player :: "real \<Rightarrow> real \<Rightarrow> game \<Rightarrow> game" where
  "move_player dt now g =
     g\<lparr>player := Farmer_update dt now (obstacles g) (handleInput (keys g) (player g))\<rparr>"

text \<open>The three accumulators and their loops, in the order of the source.\<close>

definition spawn_all :: "real \<Rightarrow> game \<Rightarrow> game option" where
  "spawn_all dt g =
     do {
       g1 \<leftarrow> spawn_crops (g\<lparr>accumSpawn := accumSpawn g + dt\<rparr>);
       g2 \<leftarrow> spawn_powerUps (g1\<lparr>accumPowerUpSpawn := accumPowerUpSpawn g1 + dt\<rparr>);
       spawn_crows (g2\<lparr>accumCrowSpawn := accumCrowSpawn g2 + dt\<rparr>)
     }"

text \<open>
  Collecting crops: the overlap set is computed by \<open>filter\<close> first; its members are
  the objects of \<open>crops\<close> that satisfy the test, so marking them dead marks exactly
  those entries of the list. The points are summed by \<open>reduce\<close> from 0, and the check
  of the goal sits inside the branch that collected something.
\<close>

definition collect_crops :: "game \<Rightarrow> error + game" where
  "collect_crops g =
     (let collected = filter (\<lambda>c. aabb (player g) c) (crops g)
      in if length collected \<noteq> 0
         then let g1 = g\<lparr>crops := map (\<lambda>c. if aabb (player g) c then c\<lparr>dead := True\<rparr> else c)
                                    (crops g)\<rparr>;
                  addedPoints = foldl (\<lambda>sum c. sum + points c) 0 collected;
                  g2 = g1\<lparr>score := score g1 + addedPoints\<rparr>
              in if score g2 \<ge> goal g2
                 then (if level g2 < 3 then advanceLevel g2 else Inr (g2\<lparr>state := WIN\<rparr>))
                 else Inr g2
         else Inr g)"

definition purge_crops :: "game \<Rightarrow> game" where
  "purge_crops g = g\<lparr>crops := filter (\<lambda>c. \<not> dead c) (crops g)\<rparr>"

definition update_crops :: "real \<Rightarrow> game \<Rightarrow> game" where
  "update_crops dt g = g\<lparr>crops := map (Crop_update dt) (crops g)\<rparr>"

text \<open>The crop block of \<open>update\<close>: collect, purge, update.\<close>

definition crop_step :: "real \<Rightarrow> game \<Rightarrow> error + game" where
  "crop_step dt g =
     (case collect_crops g of
        Inl e \<Rightarrow> Inl e
      | Inr g1 \<Rightarrow> Inr (update_crops dt (purge_crops g1)))"

text \<open>
  The power-up block: every collected power-up is marked dead and boosts the player
  for 5 seconds; then purge and update.
\<close>

definition collect_powerUps :: "real \<Rightarrow> game \<Rightarrow> game" where
  "collect_powerUps now g =
     (let collectedPowerUps = filter (\<lambda>p. aabb (player g) p) (powerUps g)
      in g\<lparr>powerUps := map (\<lambda>p. if aabb (player g) p then p\<lparr>dead := True\<rparr> else p)
                           (powerUps g),
            player := foldl (\<lambda>pl p. applySpeedBoost 5 now pl) (player g) collectedPowerUps\<rparr>)"

definition powerUp_step :: "real \<Rightarrow> real \<Rightarrow> game \<Rightarrow> game" where
  "powerUp_step dt now g =
     (let g1 = collect_powerUps now g;
          g2 = g1\<lparr>powerUps := filter (\<lambda>p. \<not> dead p) (powerUps g1)\<rparr>
      in g2\<lparr>powerUps := map (PowerUp_update dt) (powerUps g2)\<rparr>)"

text \<open>
  The crow block: update every crow, then test, penalise, mark and purge.
\<close>

definition crow_step :: "real \<Rightarrow> game \<Rightarrow> game" where
  "crow_step dt g =
     (let (cs, i) = update_crows dt (rng g) (crows g) (rng_pos g);
          g1 = g\<lparr>crows := cs, rng_pos := i\<rparr>;
          hitCrows = filter (\<lambda>c. aabb (player g1) c) (crows g1);
          g2 = (if length hitCrows > 0
                then g1\<lparr>score := max 0 (score g1 - 2 * int (length hitCrows)),
                        crows := map (\<lambda>c. if aabb (player g1) c then c\<lparr>dead := True\<rparr> else c)
                                     (crows g1)\<rparr>
                else g1)
      in g2\<lparr>crows := filter (\<lambda>c. \<not> dead c) (crows g2)\<rparr>)"

text \<open>Everything of \<open>update\<close> after the spawn loops.\<close>

definition collisions :: "real \<Rightarrow> real \<Rightarrow> game \<Rightarrow> error + game" where
  "collisions dt now g =
     (case crop_step dt g of
        Inl e \<Rightarrow> Inl e
      | Inr g1 \<Rightarrow> Inr (crow_step dt (powerUp_step dt now g1)))"

text \<open>
  \<open>update\<close>. The result is \<open>None\<close> when a spawn loop never ends, \<open>Some (Inl e)\<close> when the
  step throws and \<open>Some (Inr g')\<close> when it returns with the state \<open>g'\<close>.
  \<open>now\<close> is the reading of \<^verbatim>\<open>performance.now() / 1000\<close>, taken as one value for the whole
  synchronous step.
\<close>

definition update :: "real \<Rightarrow> real \<Rightarrow> game \<Rightarrow> (error + game) option" where
  "update dt now g =
     (if state g \<noteq> PLAYING then Some (Inr g)
      else let g1 = countdown dt g in
        if timeLeft g1 \<le> 0 then Some (Inr (g1\<lparr>state := GAME_OVER\<rparr>))
        else do {
          g2 \<leftarrow> spawn_all dt (move_player dt now g1);
          Some (collisions dt now g2)
        })"

text \<open>
  \<open>tick\<close>, the frame callback: the capped time step, then \<open>update\<close>; rendering reads
  the state only. \<open>run_frames\<close> is the chain of callbacks for a list of frames, each a
  timestamp in milliseconds with the clock reading in seconds; a frame that throws
  or never returns ends the chain.
\<close>

definition tick :: "real \<Rightarrow> real \<Rightarrow> game \<Rightarrow> (error + game) option" where
  "tick ts now g =
     (let dt = min ((ts - lastTime g) / 1000) 0.033
      in update dt now (g\<lparr>lastTime := ts\<rparr>))"

fun run_frames :: "(real \<times> real) list \<Rightarrow> game \<Rightarrow> (error + game) option" where
  "run_frames [] g = Some (Inr g)"
| "run_frames ((ts, now) # fs) g =
     (case tick ts now g of
        Some (Inr g') \<Rightarrow> run_frames fs g'
      | r \<Rightarrow> r)"

text \<open>
  A sequence of calls of \<open>update\<close>, each with its time step and clock reading, as a
  caller other than \<open>tick\<close> would make them.
\<close>

fun run_updates :: "(real \<times> real) list \<Rightarrow> game \<Rightarrow> (error + game) option" where
  "run_updates [] g = Some (Inr g)"
| "run_updates ((dt, now) # fs) g =
     (case update dt now g of
        Some (Inr g') \<Rightarrow> run_updates fs g'
      | r \<Rightarrow> r)"

section \<open>Auxiliary definitions\<close>

text \<open>The bodies of the three spawn loops, for stating how often they run.\<close>

definition crop_body :: "game \<Rightarrow> game" where
  "crop_body g = spawnCrop (g\<lparr>accumSpawn := accumSpawn g - spawnEvery g\<rparr>)"

definition powerUp_body :: "game \<Rightarrow> game" where
  "powerUp_body g =
     spawnPowerUp (g\<lparr>accumPowerUpSpawn := accumPowerUpSpawn g - powerUpSpawnEvery g\<rparr>)"

definition crow_body :: "game \<Rightarrow> game" where
  "crow_body g = spawnCrow (g\<lparr>accumCrowSpawn := accumCrowSpawn g - crowSpawnEvery g\<rparr>)"

text \<open>
  A run in progress: the state that \<open>start\<close> reaches from the built-in levels when every
  random draw returns one half, with no key held.
\<close>

definition level1_run :: game where
  "level1_run =
     \<lparr>state = PLAYING, level = 1, levels = default_levels, requiredScore = 15, maxTime = 60,
      player = new_Farmer (WIDTH / 2 - 17) (HEIGHT - 80),
      crops = [], obstacles = [new_Scarecrow 450 270, new_Scarecrow 450 270],
      powerUps = [], crows = [],
      lastTime = 0, timeLeft = 60,
      spawnEvery = 0.8, accumSpawn = 0,
      powerUpSpawnEvery = 10, accumPowerUpSpawn = 0,
      crowSpawnEvery = 5, accumCrowSpawn = 0,
      score = 0, goal = 15, keys = {}, rng = (\<lambda>_. 1 / 2), rng_pos = 0\<rparr>"

text \<open>
  What collecting crops writes: the crop list with the overlapping crops marked, and
  the score with their points added.
\<close>

definition marked_crops :: "game \<Rightarrow> crop list" where
  "marked_crops g = map (\<lambda>c. if aabb (player g) c then c\<lparr>dead := True\<rparr> else c) (crops g)"

definition new_score :: "game \<Rightarrow> int" where
  "new_score g = score g + (\<Sum>c\<leftarrow>filter (\<lambda>c. aabb (player g) c) (crops g). points c)"

section \<open>Example states\<close>



text \<open>
  A player walking left, before a step of 0.033 seconds, after it and after a second
  one: 8.58 pixels per step at speed 260.
\<close>

definition walker :: farmer where
  "walker = new_Farmer 445 460"

definition walker_moved :: farmer where
  "walker_moved =
     walker\<lparr>x := 436.42, vx := - 260, isMoving := True, currentRow := 1, frameTime := 0.033\<rparr>"

definition walker_moved_twice :: farmer where
  "walker_moved_twice = walker_moved\<lparr>x := 427.84, frameTime := 0.066\<rparr>"

text \<open>
  \<open>goal_reached\<close>: one point short of the goal of level 1, the player about to walk
  onto five golden apples in one grid cell. \<open>overshoot\<close>: the state that the next
  update reaches from there, level 2 with 39 points against a goal of 35.
  \<open>last_level\<close>: level 3, one point short, the player about to walk onto a wheat.
\<close>

definition goal_reached :: game where
  "goal_reached =
     level1_run\<lparr>score := 14, keys := {''ArrowLeft''}, player := walker,
       crops := [new_Crop 420 450 ''golden_apple'' 0, new_Crop 420 450 ''golden_apple'' 0,
                 new_Crop 420 450 ''golden_apple'' 0, new_Crop 420 450 ''golden_apple'' 0,
                 new_Crop 420 450 ''golden_apple'' 0]\<rparr>"

definition overshoot :: game where
  "overshoot =
     level1_run\<lparr>level := 2, requiredScore := 35, goal := 35, score := 39,
       timeLeft := 55, maxTime := 55,
       spawnEvery := 0.6, powerUpSpawnEvery := 8, crowSpawnEvery := 4,
       obstacles := [new_Scarecrow 450 270, new_Scarecrow 450 270, new_Scarecrow 450 270],
       keys := {''ArrowLeft''}, player := walker_moved, rng_pos := 6\<rparr>"

definition last_level :: game where
  "last_level =
     level1_run\<lparr>level := 3, requiredScore := 60, goal := 60, score := 59,
       timeLeft := 50, maxTime := 50,
       spawnEvery := 0.4, powerUpSpawnEvery := 6, crowSpawnEvery := 3,
       keys := {''ArrowLeft''}, player := walker,
       crops := [new_Crop 420 450 ''wheat'' 0]\<rparr>"

text \<open>
  The same three states after the countdown, the player block and the spawn loops of
  an update with \<open>dt = 0.033\<close>.
\<close>

definition goal_reached_spawned :: game where
  "goal_reached_spawned =
     goal_reached\<lparr>timeLeft := 59.967, accumSpawn := 0.033,
       accumPowerUpSpawn := 0.033, accumCrowSpawn := 0.033, player := walker_moved\<rparr>"

definition last_level_spawned :: game where
  "last_level_spawned =
     last_level\<lparr>timeLeft := 49.967, accumSpawn := 0.033,
       accumPowerUpSpawn := 0.033, accumCrowSpawn := 0.033, player := walker_moved\<rparr>"

definition overshoot_spawned :: game where
  "overshoot_spawned =
     overshoot\<lparr>timeLeft := 54.967, accumSpawn := 0.033,
       accumPowerUpSpawn := 0.033, accumCrowSpawn := 0.033, player := walker_moved_twice\<rparr>"

text \<open>
  \<open>busy\<close>: a pumpkin and a power-up over the player, a wheat and a crow elsewhere;
  \<open>busy_after_crops\<close> is what the crop block makes of it.
\<close>

definition busy :: game where
  "busy =
     level1_run\<lparr>crops := [new_Crop 420 450 ''pumpkin'' 0, new_Crop 450 270 ''wheat'' 0],
       powerUps := [new_PowerUp 450 480 0],
       crows := [new_Crow 30 30 (1 / 2) (1 / 2) 0]\<rparr>"

definition busy_after_crops :: game where
  "busy_after_crops =
     busy\<lparr>score := 3, crops := [Crop_update 0.033 (new_Crop 450 270 ''wheat'' 0)]\<rparr>"

definition busy_start :: game where
  "busy_start = busy\<lparr>accumSpawn := 0.1, accumPowerUpSpawn := 0.1, accumCrowSpawn := 0.1\<rparr>"

definition busy_spawned :: game where
  "busy_spawned =
     busy\<lparr>timeLeft := 59.967, accumSpawn := 0.133, accumPowerUpSpawn := 0.133,
       accumCrowSpawn := 0.133\<rparr>"

section \<open>Evaluation\<close>

text \<open>The definitions that a run on a concrete state unfolds.\<close>

lemmas eval_defs =
  update_def countdown_def clamp_def move_player_def handleInput_def Farmer_update_def
  boost_expiry_def animate_def try_move_def collisions_def crop_step_def collect_crops_def
  purge_crops_def update_crops_def powerUp_step_def collect_powerUps_def crow_step_def
  advanceLevel_def aabb_def new_Crop_def new_Farmer_def new_Scarecrow_def crop_points_def
  grid_x_def grid_y_def WIDTH_def HEIGHT_def TILE_def default_levels_def level1_run_def
  walker_def walker_moved_def walker_moved_twice_def Let_def

section \<open>The example state\<close>

lemma level1_run_reachable:
  "resetWithConfig default_levels 0 (g\<lparr>levels := default_levels, keys := {}, rng := (\<lambda>_. 1 / 2), rng_pos := 0\<rparr>)
     = Inr (level1_run\<lparr>state := MENU, rng_pos := 4\<rparr>)"
  by (simp add: resetWithConfig_def default_levels_def level1_run_def numeral_2_eq_2
        grid_x_def grid_y_def WIDTH_def HEIGHT_def TILE_def)

section \<open>Geometry\<close>

text \<open>
  Claim C9. For all rectangles \<open>a\<close> and \<open>b\<close>, \<open>aabb a b = aabb b a\<close>, and two rectangles
  that touch on an edge (a side of one on the opposite side of the other, on either
  axis) do not intersect: the four comparisons are strict.
\<close>

theorem aabb_symmetric_strict:
  "aabb a b = aabb b a \<and>
   (x a + w a = x b \<or> x a = x b + w b \<or> y a + h a = y b \<or> y a = y b + h b
      \<longrightarrow> \<not> aabb a b)"
  unfolding aabb_def by auto

theorem aabb_symmetric_strict_witness:
  "x (new_Scarecrow 0 0) + w (new_Scarecrow 0 0) = x (new_Scarecrow 26 0) \<and>
   \<not> aabb (new_Scarecrow 0 0) (new_Scarecrow 26 0) \<and>
   aabb (new_Scarecrow 0 0) (new_Scarecrow 26 0) = aabb (new_Scarecrow 26 0) (new_Scarecrow 0 0)"
  using aabb_symmetric_strict [of "new_Scarecrow 0 0" "new_Scarecrow 26 0"]
  by (auto simp: new_Scarecrow_def)

section \<open>Player movement\<close>



section \<open>The spawn loops\<close>


lemma spawnCrop_shape:
  "\<exists>c. \<not> dead c \<and> points c = crop_points (type c) \<and>
       spawnCrop g = g\<lparr>crops := crops g @ [c], rng_pos := rng_pos g + 4\<rparr>"
  by (intro exI [of _ "last (crops (spawnCrop g))"])
     (simp add: spawnCrop_def Let_def new_Crop_def)

lemma crop_body_funpow:
  "\<exists>cs. length cs = n \<and> (\<forall>c\<in>set cs. \<not> dead c \<and> points c = crop_points (type c)) \<and>
     (crop_body ^^ n) g =
       g\<lparr>accumSpawn := accumSpawn g - of_nat n * spawnEvery g,
         crops := crops g @ cs, rng_pos := rng_pos g + 4 * n\<rparr>"
proof (induction n)
  case 0
  show ?case by simp
next
  case (Suc n)
  then obtain cs where cs: "length cs = n"
      "\<forall>c\<in>set cs. \<not> dead c \<and> points c = crop_points (type c)"
      "(crop_body ^^ n) g =
         g\<lparr>accumSpawn := accumSpawn g - of_nat n * spawnEvery g,
           crops := crops g @ cs, rng_pos := rng_pos g + 4 * n\<rparr>"
    by blast
  let ?g = "(crop_body ^^ n) g"
  obtain c where c: "\<not> dead c" "points c = crop_points (type c)"
      "spawnCrop (?g\<lparr>accumSpawn := accumSpawn ?g - spawnEvery ?g\<rparr>) =
         (?g\<lparr>accumSpawn := accumSpawn ?g - spawnEvery ?g\<rparr>)
           \<lparr>crops := crops (?g\<lparr>accumSpawn := accumSpawn ?g - spawnEvery ?g\<rparr>) @ [c],
            rng_pos := rng_pos (?g\<lparr>accumSpawn := accumSpawn ?g - spawnEvery ?g\<rparr>) + 4\<rparr>"
    using spawnCrop_shape by blast
  have "(crop_body ^^ Suc n) g =
          g\<lparr>accumSpawn := accumSpawn g - of_nat (Suc n) * spawnEvery g,
            crops := crops g @ (cs @ [c]), rng_pos := rng_pos g + 4 * Suc n\<rparr>"
    using c(3) by (simp add: crop_body_def cs(3) algebra_simps)
  moreover have "length (cs @ [c]) = Suc n" using cs(1) by simp
  moreover have "\<forall>c\<in>set (cs @ [c]). \<not> dead c \<and> points c = crop_points (type c)"
    using cs(2) c(1,2) by simp
  ultimately show ?case by blast
qed


lemma spawnPowerUp_shape:
  "\<exists>p. \<not> dead p \<and>
       spawnPowerUp g = g\<lparr>powerUps := powerUps g @ [p], rng_pos := rng_pos g + 3\<rparr>"
  by (intro exI [of _ "last (powerUps (spawnPowerUp g))"])
     (simp add: spawnPowerUp_def Let_def new_PowerUp_def)

lemma powerUp_body_funpow:
  "\<exists>ps. length ps = n \<and> (\<forall>p\<in>set ps. \<not> dead p) \<and>
     (powerUp_body ^^ n) g =
       g\<lparr>accumPowerUpSpawn := accumPowerUpSpawn g - of_nat n * powerUpSpawnEvery g,
         powerUps := powerUps g @ ps, rng_pos := rng_pos g + 3 * n\<rparr>"
proof (induction n)
  case 0
  show ?case by simp
next
  case (Suc n)
  then obtain ps where ps: "length ps = n" "\<forall>p\<in>set ps. \<not> dead p"
      "(powerUp_body ^^ n) g =
         g\<lparr>accumPowerUpSpawn := accumPowerUpSpawn g - of_nat n * powerUpSpawnEvery g,
           powerUps := powerUps g @ ps, rng_pos := rng_pos g + 3 * n\<rparr>"
    by blast
  let ?g = "(powerUp_body ^^ n) g"
  let ?h = "?g\<lparr>accumPowerUpSpawn := accumPowerUpSpawn ?g - powerUpSpawnEvery ?g\<rparr>"
  obtain p where p: "\<not> dead p"
      "spawnPowerUp ?h = ?h\<lparr>powerUps := powerUps ?h @ [p], rng_pos := rng_pos ?h + 3\<rparr>"
    using spawnPowerUp_shape by blast
  have "(powerUp_body ^^ Suc n) g =
          g\<lparr>accumPowerUpSpawn := accumPowerUpSpawn g - of_nat (Suc n) * powerUpSpawnEvery g,
            powerUps := powerUps g @ (ps @ [p]), rng_pos := rng_pos g + 3 * Suc n\<rparr>"
    using p(2) by (simp add: powerUp_body_def ps(3) algebra_simps)
  moreover have "length (ps @ [p]) = Suc n" using ps(1) by simp
  moreover have "\<forall>q\<in>set (ps @ [p]). \<not> dead q" using ps(2) p(1) by simp
  ultimately show ?case by blast
qed


lemma spawnCrow_shape:
  "\<exists>c. \<not> dead c \<and>
       spawnCrow g = g\<lparr>crows := crows g @ [c], rng_pos := rng_pos g + 5\<rparr>"
  by (intro exI [of _ "last (crows (spawnCrow g))"])
     (simp add: spawnCrow_def Let_def new_Crow_def)

lemma crow_body_funpow:
  "\<exists>ws. length ws = n \<and> (\<forall>c\<in>set ws. \<not> dead c) \<and>
     (crow_body ^^ n) g =
       g\<lparr>accumCrowSpawn := accumCrowSpawn g - of_nat n * crowSpawnEvery g,
         crows := crows g @ ws, rng_pos := rng_pos g + 5 * n\<rparr>"
proof (induction n)
  case 0
  show ?case by simp
next
  case (Suc n)
  then obtain ws where ws: "length ws = n" "\<forall>c\<in>set ws. \<not> dead c"
      "(crow_body ^^ n) g =
         g\<lparr>accumCrowSpawn := accumCrowSpawn g - of_nat n * crowSpawnEvery g,
           crows := crows g @ ws, rng_pos := rng_pos g + 5 * n\<rparr>"
    by blast
  let ?g = "(crow_body ^^ n) g"
  let ?h = "?g\<lparr>accumCrowSpawn := accumCrowSpawn ?g - crowSpawnEvery ?g\<rparr>"
  obtain c where c: "\<not> dead c"
      "spawnCrow ?h = ?h\<lparr>crows := crows ?h @ [c], rng_pos := rng_pos ?h + 5\<rparr>"
    using spawnCrow_shape by blast
  have "(crow_body ^^ Suc n) g =
          g\<lparr>accumCrowSpawn := accumCrowSpawn g - of_nat (Suc n) * crowSpawnEvery g,
            crows := crows g @ (ws @ [c]), rng_pos := rng_pos g + 5 * Suc n\<rparr>"
    using c(2) by (simp add: crow_body_def ws(3) algebra_simps)
  moreover have "length (ws @ [c]) = Suc n" using ws(1) by simp
  moreover have "\<forall>d\<in>set (ws @ [c]). \<not> dead d" using ws(2) c(1) by simp
  ultimately show ?case by blast
qed



lemma spawn_crops_diverges:
  assumes "spawnEvery g \<le> 0" and "spawnEvery g \<le> accumSpawn g"
  shows "spawn_crops g = None"
proof (rule ccontr)
  assume "spawn_crops g \<noteq> None"
  then obtain g' where run: "spawn_crops g = Some g'" by auto
  have step: "\<not> (spawnEvery s \<le> 0 \<and> spawnEvery s \<le> accumSpawn s)"
    if IH: "\<And>a b. loop a = Some b \<Longrightarrow> \<not> (spawnEvery a \<le> 0 \<and> spawnEvery a \<le> accumSpawn a)"
      and body: "(if spawnEvery s \<le> accumSpawn s
                  then loop (spawnCrop (s\<lparr>accumSpawn := accumSpawn s - spawnEvery s\<rparr>))
                  else Some s) = Some r"
    for loop s r
  proof
    assume bad: "spawnEvery s \<le> 0 \<and> spawnEvery s \<le> accumSpawn s"
    let ?s = "spawnCrop (s\<lparr>accumSpawn := accumSpawn s - spawnEvery s\<rparr>)"
    from bad body have "loop ?s = Some r" by simp
    then have "\<not> (spawnEvery ?s \<le> 0 \<and> spawnEvery ?s \<le> accumSpawn ?s)" by (rule IH)
    moreover have "spawnEvery ?s = spawnEvery s" "accumSpawn ?s = accumSpawn s - spawnEvery s"
      by (simp_all add: spawnCrop_def Let_def)
    ultimately show False using bad by simp
  qed
  have "\<not> (spawnEvery g \<le> 0 \<and> spawnEvery g \<le> accumSpawn g)"
    by (rule spawn_crops.raw_induct
          [where P = "\<lambda>s r. \<not> (spawnEvery s \<le> 0 \<and> spawnEvery s \<le> accumSpawn s)", OF step run])
  with assms show False by simp
qed

lemma spawn_powerUps_diverges:
  assumes "powerUpSpawnEvery g \<le> 0" and "powerUpSpawnEvery g \<le> accumPowerUpSpawn g"
  shows "spawn_powerUps g = None"
proof (rule ccontr)
  assume "spawn_powerUps g \<noteq> None"
  then obtain g' where run: "spawn_powerUps g = Some g'" by auto
  have step: "\<not> (powerUpSpawnEvery s \<le> 0 \<and> powerUpSpawnEvery s \<le> accumPowerUpSpawn s)"
    if IH: "\<And>a b. loop a = Some b \<Longrightarrow> \<not> (powerUpSpawnEvery a \<le> 0 \<and> powerUpSpawnEvery a \<le> accumPowerUpSpawn a)"
      and body: "(if powerUpSpawnEvery s \<le> accumPowerUpSpawn s
                  then loop (spawnPowerUp (s\<lparr>accumPowerUpSpawn := accumPowerUpSpawn s - powerUpSpawnEvery s\<rparr>))
                  else Some s) = Some r"
    for loop s r
  proof
    assume bad: "powerUpSpawnEvery s \<le> 0 \<and> powerUpSpawnEvery s \<le> accumPowerUpSpawn s"
    let ?s = "spawnPowerUp (s\<lparr>accumPowerUpSpawn := accumPowerUpSpawn s - powerUpSpawnEvery s\<rparr>)"
    from bad body have "loop ?s = Some r" by simp
    then have "\<not> (powerUpSpawnEvery ?s \<le> 0 \<and> powerUpSpawnEvery ?s \<le> accumPowerUpSpawn ?s)" by (rule IH)
    moreover have "powerUpSpawnEvery ?s = powerUpSpawnEvery s" "accumPowerUpSpawn ?s = accumPowerUpSpawn s - powerUpSpawnEvery s"
      by (simp_all add: spawnPowerUp_def Let_def)
    ultimately show False using bad by simp
  qed
  have "\<not> (powerUpSpawnEvery g \<le> 0 \<and> powerUpSpawnEvery g \<le> accumPowerUpSpawn g)"
    by (rule spawn_powerUps.raw_induct
          [where P = "\<lambda>s r. \<not> (powerUpSpawnEvery s \<le> 0 \<and> powerUpSpawnEvery s \<le> accumPowerUpSpawn s)", OF step run])
  with assms show False by simp
qed

lemma spawn_crows_diverges:
  assumes "crowSpawnEvery g \<le> 0" and "crowSpawnEvery g \<le> accumCrowSpawn g"
  shows "spawn_crows g = None"
proof (rule ccontr)
  assume "spawn_crows g \<noteq> None"
  then obtain g' where run: "spawn_crows g = Some g'" by auto
  have step: "\<not> (crowSpawnEvery s \<le> 0 \<and> crowSpawnEvery s \<le> accumCrowSpawn s)"
    if IH: "\<And>a b. loop a = Some b \<Longrightarrow> \<not> (crowSpawnEvery a \<le> 0 \<and> crowSpawnEvery a \<le> accumCrowSpawn a)"
      and body: "(if crowSpawnEvery s \<le> accumCrowSpawn s
                  then loop (spawnCrow (s\<lparr>accumCrowSpawn := accumCrowSpawn s - crowSpawnEvery s\<rparr>))
                  else Some s) = Some r"
    for loop s r
  proof
    assume bad: "crowSpawnEvery s \<le> 0 \<and> crowSpawnEvery s \<le> accumCrowSpawn s"
    let ?s = "spawnCrow (s\<lparr>accumCrowSpawn := accumCrowSpawn s - crowSpawnEvery s\<rparr>)"
    from bad body have "loop ?s = Some r" by simp
    then have "\<not> (crowSpawnEvery ?s \<le> 0 \<and> crowSpawnEvery ?s \<le> accumCrowSpawn ?s)" by (rule IH)
    moreover have "crowSpawnEvery ?s = crowSpawnEvery s" "accumCrowSpawn ?s = accumCrowSpawn s - crowSpawnEvery s"
      by (simp_all add: spawnCrow_def Let_def)
    ultimately show False using bad by simp
  qed
  have "\<not> (crowSpawnEvery g \<le> 0 \<and> crowSpawnEvery g \<le> accumCrowSpawn g)"
    by (rule spawn_crows.raw_induct
          [where P = "\<lambda>s r. \<not> (crowSpawnEvery s \<le> 0 \<and> crowSpawnEvery s \<le> accumCrowSpawn s)", OF step run])
  with assms show False by simp
qed


text \<open>
  The same without the precondition: a loop that ends has run its body some number
  of times.
\<close>

lemma spawn_crops_funpow:
  assumes "spawn_crops g = Some g'"
  shows "\<exists>n. g' = (crop_body ^^ n) g"
proof -
  have step: "\<exists>n. r = (crop_body ^^ n) s"
    if IH: "\<And>a b. loop a = Some b \<Longrightarrow> \<exists>n. b = (crop_body ^^ n) a"
      and body: "(if spawnEvery s \<le> accumSpawn s
                  then loop (spawnCrop (s\<lparr>accumSpawn := accumSpawn s - spawnEvery s\<rparr>))
                  else Some s) = Some r"
    for loop s r
  proof (cases "spawnEvery s \<le> accumSpawn s")
    case True
    with body have "loop (crop_body s) = Some r" by (simp add: crop_body_def)
    then obtain n where "r = (crop_body ^^ n) (crop_body s)" using IH by blast
    then have "r = (crop_body ^^ Suc n) s" by (simp add: funpow_swap1)
    then show ?thesis by blast
  next
    case False
    with body have "r = (crop_body ^^ 0) s" by simp
    then show ?thesis by blast
  qed
  show ?thesis
    by (rule spawn_crops.raw_induct [where P = "\<lambda>s r. \<exists>n. r = (crop_body ^^ n) s", OF step assms])
qed

lemma spawn_powerUps_funpow:
  assumes "spawn_powerUps g = Some g'"
  shows "\<exists>n. g' = (powerUp_body ^^ n) g"
proof -
  have step: "\<exists>n. r = (powerUp_body ^^ n) s"
    if IH: "\<And>a b. loop a = Some b \<Longrightarrow> \<exists>n. b = (powerUp_body ^^ n) a"
      and body: "(if powerUpSpawnEvery s \<le> accumPowerUpSpawn s
                  then loop (spawnPowerUp
                         (s\<lparr>accumPowerUpSpawn := accumPowerUpSpawn s - powerUpSpawnEvery s\<rparr>))
                  else Some s) = Some r"
    for loop s r
  proof (cases "powerUpSpawnEvery s \<le> accumPowerUpSpawn s")
    case True
    with body have "loop (powerUp_body s) = Some r" by (simp add: powerUp_body_def)
    then obtain n where "r = (powerUp_body ^^ n) (powerUp_body s)" using IH by blast
    then have "r = (powerUp_body ^^ Suc n) s" by (simp add: funpow_swap1)
    then show ?thesis by blast
  next
    case False
    with body have "r = (powerUp_body ^^ 0) s" by simp
    then show ?thesis by blast
  qed
  show ?thesis
    by (rule spawn_powerUps.raw_induct
          [where P = "\<lambda>s r. \<exists>n. r = (powerUp_body ^^ n) s", OF step assms])
qed

lemma spawn_crows_funpow:
  assumes "spawn_crows g = Some g'"
  shows "\<exists>n. g' = (crow_body ^^ n) g"
proof -
  have step: "\<exists>n. r = (crow_body ^^ n) s"
    if IH: "\<And>a b. loop a = Some b \<Longrightarrow> \<exists>n. b = (crow_body ^^ n) a"
      and body: "(if crowSpawnEvery s \<le> accumCrowSpawn s
                  then loop (spawnCrow (s\<lparr>accumCrowSpawn := accumCrowSpawn s - crowSpawnEvery s\<rparr>))
                  else Some s) = Some r"
    for loop s r
  proof (cases "crowSpawnEvery s \<le> accumCrowSpawn s")
    case True
    with body have "loop (crow_body s) = Some r" by (simp add: crow_body_def)
    then obtain n where "r = (crow_body ^^ n) (crow_body s)" using IH by blast
    then have "r = (crow_body ^^ Suc n) s" by (simp add: funpow_swap1)
    then show ?thesis by blast
  next
    case False
    with body have "r = (crow_body ^^ 0) s" by simp
    then show ?thesis by blast
  qed
  show ?thesis
    by (rule spawn_crows.raw_induct [where P = "\<lambda>s r. \<exists>n. r = (crow_body ^^ n) s", OF step assms])
qed

text \<open>Whenever the three loops end, they have changed their own fields only.\<close>

lemma spawn_all_frame:
  assumes "spawn_all dt g = Some gp"
  shows "\<exists>cs ps ws a1 a2 a3 k.
     (\<forall>c\<in>set cs. \<not> dead c \<and> points c = crop_points (type c)) \<and>
     (\<forall>p\<in>set ps. \<not> dead p) \<and> (\<forall>c\<in>set ws. \<not> dead c) \<and>
     gp = g\<lparr>accumSpawn := a1, crops := crops g @ cs,
            accumPowerUpSpawn := a2, powerUps := powerUps g @ ps,
            accumCrowSpawn := a3, crows := crows g @ ws, rng_pos := k\<rparr>"
proof -
  from assms obtain g1 g2 where
    r1: "spawn_crops (g\<lparr>accumSpawn := accumSpawn g + dt\<rparr>) = Some g1" and
    r2: "spawn_powerUps (g1\<lparr>accumPowerUpSpawn := accumPowerUpSpawn g1 + dt\<rparr>) = Some g2" and
    r3: "spawn_crows (g2\<lparr>accumCrowSpawn := accumCrowSpawn g2 + dt\<rparr>) = Some gp"
    by (auto simp: spawn_all_def bind_eq_Some_conv)
  let ?g0 = "g\<lparr>accumSpawn := accumSpawn g + dt\<rparr>"
  from spawn_crops_funpow [OF r1] obtain n1 where "g1 = (crop_body ^^ n1) ?g0" by blast
  moreover from crop_body_funpow [of n1 ?g0] obtain cs where
    cs: "\<forall>c\<in>set cs. \<not> dead c \<and> points c = crop_points (type c)" and
    "(crop_body ^^ n1) ?g0 =
       ?g0\<lparr>accumSpawn := accumSpawn ?g0 - of_nat n1 * spawnEvery ?g0,
           crops := crops ?g0 @ cs, rng_pos := rng_pos ?g0 + 4 * n1\<rparr>"
    by blast
  ultimately have g1: "g1 = g\<lparr>accumSpawn := accumSpawn g + dt - of_nat n1 * spawnEvery g,
      crops := crops g @ cs, rng_pos := rng_pos g + 4 * n1\<rparr>"
    by simp
  let ?g1 = "g1\<lparr>accumPowerUpSpawn := accumPowerUpSpawn g1 + dt\<rparr>"
  from spawn_powerUps_funpow [OF r2] obtain n2 where "g2 = (powerUp_body ^^ n2) ?g1" by blast
  moreover from powerUp_body_funpow [of n2 ?g1] obtain ps where
    ps: "\<forall>p\<in>set ps. \<not> dead p" and
    "(powerUp_body ^^ n2) ?g1 =
       ?g1\<lparr>accumPowerUpSpawn := accumPowerUpSpawn ?g1 - of_nat n2 * powerUpSpawnEvery ?g1,
           powerUps := powerUps ?g1 @ ps, rng_pos := rng_pos ?g1 + 3 * n2\<rparr>"
    by blast
  ultimately have g2: "g2 = g\<lparr>accumSpawn := accumSpawn g + dt - of_nat n1 * spawnEvery g,
      crops := crops g @ cs,
      accumPowerUpSpawn := accumPowerUpSpawn g + dt - of_nat n2 * powerUpSpawnEvery g,
      powerUps := powerUps g @ ps, rng_pos := rng_pos g + 4 * n1 + 3 * n2\<rparr>"
    by (simp add: g1)
  let ?g2 = "g2\<lparr>accumCrowSpawn := accumCrowSpawn g2 + dt\<rparr>"
  from spawn_crows_funpow [OF r3] obtain n3 where "gp = (crow_body ^^ n3) ?g2" by blast
  moreover from crow_body_funpow [of n3 ?g2] obtain ws where
    ws: "\<forall>c\<in>set ws. \<not> dead c" and
    "(crow_body ^^ n3) ?g2 =
       ?g2\<lparr>accumCrowSpawn := accumCrowSpawn ?g2 - of_nat n3 * crowSpawnEvery ?g2,
           crows := crows ?g2 @ ws, rng_pos := rng_pos ?g2 + 5 * n3\<rparr>"
    by blast
  ultimately have "gp = g\<lparr>accumSpawn := accumSpawn g + dt - of_nat n1 * spawnEvery g,
      crops := crops g @ cs,
      accumPowerUpSpawn := accumPowerUpSpawn g + dt - of_nat n2 * powerUpSpawnEvery g,
      powerUps := powerUps g @ ps,
      accumCrowSpawn := accumCrowSpawn g + dt - of_nat n3 * crowSpawnEvery g,
      crows := crows g @ ws, rng_pos := rng_pos g + 4 * n1 + 3 * n2 + 5 * n3\<rparr>"
    by (simp add: g2)
  with cs ps ws show ?thesis by blast
qed

text \<open>No loop runs when every accumulator stays below its interval.\<close>

lemma spawn_all_idle:
  assumes "accumSpawn g + dt < spawnEvery g"
    and "accumPowerUpSpawn g + dt < powerUpSpawnEvery g"
    and "accumCrowSpawn g + dt < crowSpawnEvery g"
  shows "spawn_all dt g =
           Some (g\<lparr>accumSpawn := accumSpawn g + dt,
                   accumPowerUpSpawn := accumPowerUpSpawn g + dt,
                   accumCrowSpawn := accumCrowSpawn g + dt\<rparr>)"
proof -
  have 1: "spawn_crops s = Some s" if "accumSpawn s < spawnEvery s" for s
    using that by (subst spawn_crops.simps) simp
  have 2: "spawn_powerUps s = Some s" if "accumPowerUpSpawn s < powerUpSpawnEvery s" for s
    using that by (subst spawn_powerUps.simps) simp
  have 3: "spawn_crows s = Some s" if "accumCrowSpawn s < crowSpawnEvery s" for s
    using that by (subst spawn_crows.simps) simp
  show ?thesis using assms by (simp add: spawn_all_def 1 2 3)
qed



section \<open>Termination of update\<close>



text \<open>
  Without that precondition a loop may never end: an interval that is zero or
  negative and not above its accumulator.
\<close>

lemma update_diverges:
  assumes "state g = PLAYING" and "0 < clamp (timeLeft g - dt) 0 (maxTime g)"
    and "spawnEvery g \<le> 0" and "spawnEvery g \<le> accumSpawn g + dt"
  shows "update dt now g = None"
proof -
  let ?g = "(move_player dt now (countdown dt g))\<lparr>accumSpawn := accumSpawn g + dt\<rparr>"
  have "spawnEvery ?g \<le> 0" "spawnEvery ?g \<le> accumSpawn ?g"
    using assms by (simp_all add: move_player_def countdown_def)
  then have "spawn_crops ?g = None" by (rule spawn_crops_diverges)
  then show ?thesis
    using assms(1,2) by (simp add: update_def Let_def spawn_all_def countdown_def move_player_def)
qed

section \<open>Time expiry\<close>

text \<open>
  Claim C1. In the PLAYING state, when \<open>timeLeft - dt\<close> is at most 0, \<open>update\<close> returns
  with the state GAME_OVER whatever the score is, and nothing else than \<open>timeLeft\<close> and
  \<open>state\<close> changes: no spawn, no player movement, no collision and no scoring.
\<close>

theorem update_time_up:
  assumes "state g = PLAYING" and "timeLeft g - dt \<le> 0"
  shows "update dt now g =
           Some (Inr (g\<lparr>timeLeft := clamp (timeLeft g - dt) 0 (maxTime g), state := GAME_OVER\<rparr>))"
  using assms by (simp add: update_def countdown_def clamp_def)

theorem update_time_up_witness:
  "state (level1_run\<lparr>timeLeft := 0.02, score := 20\<rparr>) = PLAYING \<and>
   timeLeft (level1_run\<lparr>timeLeft := 0.02, score := 20\<rparr>) - 0.033 \<le> 0 \<and>
   goal (level1_run\<lparr>timeLeft := 0.02, score := 20\<rparr>) \<le> score (level1_run\<lparr>timeLeft := 0.02, score := 20\<rparr>) \<and>
   update 0.033 7 (level1_run\<lparr>timeLeft := 0.02, score := 20\<rparr>) =
     Some (Inr (level1_run\<lparr>timeLeft := 0, score := 20, state := GAME_OVER\<rparr>))"
  using update_time_up [of "level1_run\<lparr>timeLeft := 0.02, score := 20\<rparr>" "0.033" 7]
  by (simp add: level1_run_def clamp_def)

section \<open>States other than PLAYING\<close>

text \<open>
  Claim C8. In every state other than PLAYING, PAUSED among them, \<open>update\<close> returns the
  state it was given, for every \<open>dt\<close>; so does every sequence of such calls, and every
  sequence of frames changes \<open>lastTime\<close> only. Score, \<open>timeLeft\<close>, the accumulators and
  every entity are the same afterwards.
\<close>

theorem update_noop_unless_playing:
  assumes "state g \<noteq> PLAYING"
  shows "update dt now g = Some (Inr g) \<and>
         run_updates fs g = Some (Inr g) \<and>
         run_frames fs g = Some (Inr (g\<lparr>lastTime := last (lastTime g # map fst fs)\<rparr>))"
proof -
  have one: "update d n s = Some (Inr s)" if "state s \<noteq> PLAYING" for d n s
    using that by (simp add: update_def)
  have many: "run_updates fs g = Some (Inr g)"
    using assms by (induction fs) (auto simp: one)
  have "run_frames fs s = Some (Inr (s\<lparr>lastTime := last (lastTime s # map fst fs)\<rparr>))"
    if "state s \<noteq> PLAYING" for s
    using that
  proof (induction fs arbitrary: s)
    case Nil
    show ?case by simp
  next
    case (Cons f fs)
    obtain ts n where f: "f = (ts, n)" by (cases f)
    have "tick ts n s = Some (Inr (s\<lparr>lastTime := ts\<rparr>))"
      using Cons.prems by (simp add: tick_def Let_def one)
    moreover have "state (s\<lparr>lastTime := ts\<rparr>) \<noteq> PLAYING" using Cons.prems by simp
    ultimately show ?case using Cons.IH [of "s\<lparr>lastTime := ts\<rparr>"] by (simp add: f)
  qed
  with one [OF assms] many assms show ?thesis by blast
qed

theorem update_noop_unless_playing_witness:
  "state (level1_run\<lparr>state := PAUSED\<rparr>) \<noteq> PLAYING \<and>
   update 0.033 7 (level1_run\<lparr>state := PAUSED\<rparr>) = Some (Inr (level1_run\<lparr>state := PAUSED\<rparr>)) \<and>
   run_updates [(16, 7), (32, 8)] (level1_run\<lparr>state := PAUSED\<rparr>) =
     Some (Inr (level1_run\<lparr>state := PAUSED\<rparr>)) \<and>
   run_frames [(16, 7), (32, 8)] (level1_run\<lparr>state := PAUSED\<rparr>) =
     Some (Inr (level1_run\<lparr>state := PAUSED, lastTime := 32\<rparr>))"
  using update_noop_unless_playing [of "level1_run\<lparr>state := PAUSED\<rparr>" "0.033" 7 "[(16, 7), (32, 8)]"]
  by simp

section \<open>The three blocks of the collision pass\<close>

text \<open>Purging after marking keeps what neither overlapped nor was dead already.\<close>

lemma purge_marked:
  fixes cs :: "'a entity_scheme list"
  shows "filter (\<lambda>c. \<not> dead c) (map (\<lambda>c. if P c then c\<lparr>dead := True\<rparr> else c) cs) =
         filter (\<lambda>c. \<not> P c \<and> \<not> dead c) cs"
  by (induction cs) auto

lemma foldl_points:
  "foldl (\<lambda>sum c. sum + points c) a cs = a + (\<Sum>c\<leftarrow>cs. points c)"
  by (induction cs arbitrary: a) auto

text \<open>Level advance: what it writes, and when it throws.\<close>

lemma place_scarecrows_shape:
  "\<exists>os. length os = n \<and>
     place_scarecrows n g = g\<lparr>obstacles := obstacles g @ os, rng_pos := rng_pos g + 2 * n\<rparr>"
proof (induction n arbitrary: g)
  case 0
  show ?case by simp
next
  case (Suc n)
  let ?o = "new_Scarecrow (grid_x (rng g (rng_pos g))) (grid_y (rng g (rng_pos g + 1)))"
  let ?g = "g\<lparr>obstacles := obstacles g @ [?o], rng_pos := rng_pos g + 2\<rparr>"
  from Suc [of ?g] obtain os where os: "length os = n"
    "place_scarecrows n ?g = ?g\<lparr>obstacles := obstacles ?g @ os, rng_pos := rng_pos ?g + 2 * n\<rparr>"
    by blast
  have "place_scarecrows (Suc n) g =
          g\<lparr>obstacles := obstacles g @ (?o # os), rng_pos := rng_pos g + 2 * Suc n\<rparr>"
    using os(2) by simp
  moreover have "length (?o # os) = Suc n" using os(1) by simp
  ultimately show ?case by blast
qed

lemma advanceLevel_result:
  assumes "level g < 3" and "level g < length (levels g)"
  shows "\<exists>os. length os = numScarecrows (levels g ! level g) \<and>
     advanceLevel g =
       Inr (g\<lparr>level := level g + 1,
              timeLeft := timeLimit (levels g ! level g),
              maxTime := timeLimit (levels g ! level g),
              crops := [], powerUps := [], crows := [],
              accumSpawn := 0, accumPowerUpSpawn := 0, accumCrowSpawn := 0,
              spawnEvery := spawnEvery_cfg (levels g ! level g),
              crowSpawnEvery := crowSpawnEvery_cfg (levels g ! level g),
              powerUpSpawnEvery := powerUpSpawnEvery_cfg (levels g ! level g),
              requiredScore := requiredScore g + goal_cfg (levels g ! level g),
              goal := requiredScore g + goal_cfg (levels g ! level g),
              obstacles := os,
              rng_pos := rng_pos g + 2 * numScarecrows (levels g ! level g)\<rparr>)"
proof -
  let ?lc = "levels g ! level g"
  let ?g = "g\<lparr>level := level g + 1,
              timeLeft := timeLimit ?lc, maxTime := timeLimit ?lc,
              crops := [], powerUps := [], crows := [],
              accumSpawn := 0, accumPowerUpSpawn := 0, accumCrowSpawn := 0,
              spawnEvery := spawnEvery_cfg ?lc,
              crowSpawnEvery := crowSpawnEvery_cfg ?lc,
              powerUpSpawnEvery := powerUpSpawnEvery_cfg ?lc,
              requiredScore := requiredScore g + goal_cfg ?lc,
              goal := requiredScore g + goal_cfg ?lc,
              obstacles := []\<rparr>"
  from place_scarecrows_shape [of "numScarecrows ?lc" ?g] obtain os where
    os: "length os = numScarecrows ?lc"
    "place_scarecrows (numScarecrows ?lc) ?g =
       ?g\<lparr>obstacles := obstacles ?g @ os, rng_pos := rng_pos ?g + 2 * numScarecrows ?lc\<rparr>"
    by blast
  have "advanceLevel g = Inr (place_scarecrows (numScarecrows ?lc) ?g)"
    using assms by (simp add: advanceLevel_def Let_def)
  with os show ?thesis by (intro exI [of _ os]) simp
qed

lemma advanceLevel_error:
  assumes "level g < 3" and "length (levels g) \<le> level g"
  shows "advanceLevel g = Inl TypeError"
  using assms by (simp add: advanceLevel_def Let_def)

text \<open>The outcomes of collecting crops.\<close>

lemma collect_crops_none:
  assumes "\<not> (\<exists>c\<in>set (crops g). aabb (player g) c)"
  shows "collect_crops g = Inr g"
proof -
  from assms have "filter (\<lambda>c. aabb (player g) c) (crops g) = []"
    by (simp add: filter_empty_conv)
  then show ?thesis by (simp add: collect_crops_def)
qed

lemma collect_crops_some:
  assumes "\<exists>c\<in>set (crops g). aabb (player g) c"
  shows "collect_crops g =
     (let g2 = g\<lparr>crops := marked_crops g, score := new_score g\<rparr>
      in if goal g \<le> new_score g
         then (if level g < 3 then advanceLevel g2 else Inr (g2\<lparr>state := WIN\<rparr>))
         else Inr g2)"
proof -
  from assms have "filter (\<lambda>c. aabb (player g) c) (crops g) \<noteq> []"
    by (simp add: filter_empty_conv)
  then show ?thesis
    by (simp add: collect_crops_def Let_def marked_crops_def new_score_def foldl_points)
qed

lemma purge_marked_crops:
  "filter (\<lambda>c. \<not> dead c) (marked_crops g) =
   filter (\<lambda>c. \<not> aabb (player g) c \<and> \<not> dead c) (crops g)"
  unfolding marked_crops_def by (rule purge_marked)

lemma new_score_none:
  "\<not> (\<exists>c\<in>set (crops g). aabb (player g) c) \<Longrightarrow> new_score g = score g"
proof -
  assume "\<not> (\<exists>c\<in>set (crops g). aabb (player g) c)"
  then have "filter (\<lambda>c. aabb (player g) c) (crops g) = []" by (simp add: filter_empty_conv)
  then show ?thesis by (simp add: new_score_def)
qed

lemma crop_step_shape:
  assumes "crop_step dt g = Inr g'"
  shows "score g' = new_score g \<and> player g' = player g \<and>
     (level g' = level g \<or> level g' = level g + 1) \<and>
     (level g' = level g \<longrightarrow>
        crops g' = map (Crop_update dt)
                     (filter (\<lambda>c. \<not> aabb (player g) c \<and> \<not> dead c) (crops g)) \<and>
        powerUps g' = powerUps g \<and> crows g' = crows g \<and> obstacles g' = obstacles g \<and>
        rng g' = rng g \<and> rng_pos g' = rng_pos g) \<and>
     (level g' \<noteq> level g \<longrightarrow> crops g' = [] \<and> powerUps g' = [] \<and> crows g' = [])"
proof (cases "\<exists>c\<in>set (crops g). aabb (player g) c")
  case False
  then have none: "\<forall>c\<in>set (crops g). \<not> aabb (player g) c" by simp
  from False have "collect_crops g = Inr g" by (simp add: collect_crops_none)
  with assms have g': "g' = update_crops dt (purge_crops g)" by (simp add: crop_step_def)
  have "filter (\<lambda>c. \<not> dead c) (crops g) =
        filter (\<lambda>c. \<not> aabb (player g) c \<and> \<not> dead c) (crops g)"
    using none by (intro filter_cong) auto
  then show ?thesis
    using False by (simp add: g' update_crops_def purge_crops_def new_score_none)
next
  case True
  let ?g2 = "g\<lparr>crops := marked_crops g, score := new_score g\<rparr>"
  note cc = collect_crops_some [OF True]
  show ?thesis
  proof (cases "goal g \<le> new_score g \<and> level g < 3")
    case False
    then have "collect_crops g = Inr ?g2 \<or> collect_crops g = Inr (?g2\<lparr>state := WIN\<rparr>)"
      using cc by (auto simp: Let_def)
    with assms have "g' = update_crops dt (purge_crops ?g2) \<or>
                     g' = update_crops dt (purge_crops (?g2\<lparr>state := WIN\<rparr>))"
      by (auto simp: crop_step_def)
    then show ?thesis
      by (auto simp: update_crops_def purge_crops_def purge_marked_crops)
  next
    case adv: True
    then have c: "collect_crops g = advanceLevel ?g2" using cc by (simp add: Let_def)
    show ?thesis
    proof (cases "level g < length (levels g)")
      case False
      then have "advanceLevel ?g2 = Inl TypeError"
        using adv by (intro advanceLevel_error) simp_all
      with c assms show ?thesis by (simp add: crop_step_def)
    next
      case True
      have "level ?g2 < 3" "level ?g2 < length (levels ?g2)" using adv True by simp_all
      from advanceLevel_result [OF this] obtain os g1 where
        "advanceLevel ?g2 = Inr g1" and
        "level g1 = level g + 1" "crops g1 = []" "powerUps g1 = []" "crows g1 = []"
        "score g1 = new_score g" "player g1 = player g"
        by auto
      with c assms have "g' = update_crops dt (purge_crops g1)" by (simp add: crop_step_def)
      with \<open>level g1 = level g + 1\<close> \<open>crops g1 = []\<close> \<open>powerUps g1 = []\<close> \<open>crows g1 = []\<close>
        \<open>score g1 = new_score g\<close> \<open>player g1 = player g\<close>
      show ?thesis by (simp add: update_crops_def purge_crops_def)
    qed
  qed
qed

text \<open>The power-up block and the crow block as single updates of the state.\<close>

lemma powerUp_step_shape:
  "powerUp_step dt now g =
     g\<lparr>powerUps := map (PowerUp_update dt)
                      (filter (\<lambda>p. \<not> aabb (player g) p \<and> \<not> dead p) (powerUps g)),
       player := foldl (\<lambda>pl p. applySpeedBoost 5 now pl) (player g)
                   (filter (\<lambda>p. aabb (player g) p) (powerUps g))\<rparr>"
  by (simp add: powerUp_step_def collect_powerUps_def Let_def purge_marked)

lemma crow_step_shape:
  "crow_step dt g =
     (let cs = fst (update_crows dt (rng g) (crows g) (rng_pos g));
          i = snd (update_crows dt (rng g) (crows g) (rng_pos g));
          n = length (filter (\<lambda>c. aabb (player g) c) cs)
      in g\<lparr>crows := filter (\<lambda>c. \<not> aabb (player g) c \<and> \<not> dead c) cs,
            rng_pos := i,
            score := (if n = 0 then score g else max 0 (score g - 2 * int n))\<rparr>)"
proof -
  obtain cs i where upd: "update_crows dt (rng g) (crows g) (rng_pos g) = (cs, i)"
    by (cases "update_crows dt (rng g) (crows g) (rng_pos g)")
  show ?thesis
  proof (cases "filter (\<lambda>c. aabb (player g) c) cs = []")
    case True
    then have "\<forall>c\<in>set cs. \<not> aabb (player g) c" by (simp add: filter_empty_conv)
    then have "filter (\<lambda>c. \<not> dead c) cs = filter (\<lambda>c. \<not> aabb (player g) c \<and> \<not> dead c) cs"
      by (intro filter_cong) auto
    with True show ?thesis by (simp add: crow_step_def upd Let_def)
  next
    case False
    then show ?thesis by (simp add: crow_step_def upd Let_def purge_marked)
  qed
qed

lemma powerUp_step_idle: "powerUps g = [] \<Longrightarrow> powerUp_step dt now g = g"
  by (simp add: powerUp_step_shape)

lemma crow_step_idle: "crows g = [] \<Longrightarrow> crow_step dt g = g"
  by (simp add: crow_step_shape)

lemma after_crops_frame:
  "state (crow_step dt (powerUp_step dt now g)) = state g \<and>
   level (crow_step dt (powerUp_step dt now g)) = level g \<and>
   goal (crow_step dt (powerUp_step dt now g)) = goal g \<and>
   crops (crow_step dt (powerUp_step dt now g)) = crops g"
  by (simp add: crow_step_shape powerUp_step_shape Let_def)

lemma update_playing:
  assumes "state g = PLAYING" and "0 < clamp (timeLeft g - dt) 0 (maxTime g)"
  shows "update dt now g =
           map_option (collisions dt now) (spawn_all dt (move_player dt now (countdown dt g)))"
  using assms
  by (cases "spawn_all dt (move_player dt now (countdown dt g))")
     (simp_all add: update_def Let_def countdown_def)

section \<open>Mobile obstacles\<close>



text \<open>
  The precondition holds throughout a run: an update keeps the score and the points
  of the listed crops from being negative.
\<close>

lemma crop_points_pos: "0 < crop_points t"
  by (simp add: crop_points_def split: option.split)

lemma update_score_nonneg:
  assumes "update dt now g = Some (Inr g')"
    and "0 \<le> score g" and "\<forall>c\<in>set (crops g). 0 \<le> points c"
  shows "0 \<le> score g' \<and> (\<forall>c\<in>set (crops g'). 0 \<le> points c)"
proof (cases "state g = PLAYING \<and> 0 < clamp (timeLeft g - dt) 0 (maxTime g)")
  case False
  with assms(1) have "score g' = score g" "crops g' = crops g"
    by (auto simp: update_def Let_def countdown_def split: if_splits)
  with assms(2,3) show ?thesis by simp
next
  case True
  with assms(1) update_playing [of g dt now] obtain gp where
    gp: "spawn_all dt (move_player dt now (countdown dt g)) = Some gp" and
    col: "collisions dt now gp = Inr g'"
    by auto
  from spawn_all_frame [OF gp] obtain cs where
    cs: "\<forall>c\<in>set cs. points c = crop_points (type c)" and
    "crops gp = crops g @ cs" "score gp = score g"
    by (auto simp: move_player_def countdown_def)
  then have pts: "\<forall>c\<in>set (crops gp). 0 \<le> points c" and sc: "0 \<le> score gp"
    using assms(2,3) crop_points_pos by (auto simp: less_imp_le)
  from col obtain g1 where g1: "crop_step dt gp = Inr g1" and
    g': "g' = crow_step dt (powerUp_step dt now g1)"
    by (auto simp: collisions_def split: sum.splits)
  from crop_step_shape [OF g1] have s1: "score g1 = new_score gp" and
    c1: "crops g1 = [] \<or> crops g1 = map (Crop_update dt)
           (filter (\<lambda>c. \<not> aabb (player gp) c \<and> \<not> dead c) (crops gp))"
    by auto
  have "0 \<le> (\<Sum>c\<leftarrow>filter (\<lambda>c. aabb (player gp) c) (crops gp). points c)"
    using pts by (intro sum_list_nonneg) auto
  with sc s1 have "0 \<le> score g1" by (simp add: new_score_def)
  moreover from c1 pts have "\<forall>c\<in>set (crops g1). 0 \<le> points c"
    by (auto simp: Crop_update_def)
  ultimately show ?thesis
    unfolding g' by (simp add: crow_step_shape powerUp_step_shape Let_def)
qed

section \<open>Collecting crops\<close>



text \<open>
  The precondition holds from the first simulated update on: an update that passes
  the time check leaves no dead entity in any list.
\<close>

lemma update_purges_dead:
  assumes "update dt now g = Some (Inr g')"
    and "state g = PLAYING" and "0 < clamp (timeLeft g - dt) 0 (maxTime g)"
  shows "(\<forall>c\<in>set (crops g'). \<not> dead c) \<and> (\<forall>p\<in>set (powerUps g'). \<not> dead p) \<and>
         (\<forall>c\<in>set (crows g'). \<not> dead c)"
proof -
  from assms update_playing [of g dt now] obtain gp where
    col: "collisions dt now gp = Inr g'"
    by auto
  from col obtain g1 where g1: "crop_step dt gp = Inr g1" and
    g': "g' = crow_step dt (powerUp_step dt now g1)"
    by (auto simp: collisions_def split: sum.splits)
  from crop_step_shape [OF g1] have
    "crops g1 = [] \<or> crops g1 = map (Crop_update dt)
           (filter (\<lambda>c. \<not> aabb (player gp) c \<and> \<not> dead c) (crops gp))"
    by auto
  then have "\<forall>c\<in>set (crops g1). \<not> dead c" by (auto simp: Crop_update_def)
  then show ?thesis
    unfolding g' by (simp add: crow_step_shape powerUp_step_shape Let_def PowerUp_update_def)
qed

section \<open>Level progression\<close>

lemma crop_step_level:
  assumes "crop_step dt g = Inr g'" and "level g' \<noteq> level g"
  shows "level g < 3"
proof (rule ccontr)
  assume "\<not> level g < 3"
  then have hi: "3 \<le> level g" by simp
  show False
  proof (cases "\<exists>c\<in>set (crops g). aabb (player g) c")
    case False
    then have "collect_crops g = Inr g" by (rule collect_crops_none)
    with assms show False by (auto simp: crop_step_def update_crops_def purge_crops_def)
  next
    case True
    from collect_crops_some [OF True] hi
    have "collect_crops g = Inr (g\<lparr>crops := marked_crops g, score := new_score g\<rparr>) \<or>
          collect_crops g = Inr (g\<lparr>crops := marked_crops g, score := new_score g, state := WIN\<rparr>)"
      by (auto simp: Let_def)
    with assms show False by (auto simp: crop_step_def update_crops_def purge_crops_def)
  qed
qed

lemma update_level:
  assumes "update dt now g = Some (Inr r)"
  shows "level g \<le> level r \<and> level r \<le> level g + 1 \<and> (level g \<le> 3 \<longrightarrow> level r \<le> 3)"
proof (cases "state g = PLAYING \<and> 0 < clamp (timeLeft g - dt) 0 (maxTime g)")
  case False
  with assms have "level r = level g"
    by (auto simp: update_def Let_def countdown_def split: if_splits)
  then show ?thesis by simp
next
  case True
  with assms update_playing [of g dt now] obtain gp where
    gp: "spawn_all dt (move_player dt now (countdown dt g)) = Some gp" and
    col: "collisions dt now gp = Inr r"
    by auto
  from spawn_all_frame [OF gp] have lv: "level gp = level g"
    by (auto simp: move_player_def countdown_def)
  from col obtain g1 where g1: "crop_step dt gp = Inr g1" and
    r: "r = crow_step dt (powerUp_step dt now g1)"
    by (auto simp: collisions_def split: sum.splits)
  have "level r = level g1" using r after_crops_frame [of dt now g1] by simp
  moreover from crop_step_shape [OF g1] have "level g1 = level gp \<or> level g1 = level gp + 1"
    by simp
  moreover have "level gp < 3" if "level g1 \<noteq> level gp"
    using crop_step_level [OF g1 that] .
  ultimately show ?thesis using lv by auto
qed

lemma update_advance:
  assumes "state g = PLAYING" and "0 < clamp (timeLeft g - dt) 0 (maxTime g)"
    and "spawn_all dt (move_player dt now (countdown dt g)) = Some gp"
    and "\<exists>c\<in>set (crops gp). aabb (player gp) c"
    and "goal g \<le> score g + (\<Sum>c\<leftarrow>filter (\<lambda>c. aabb (player gp) c) (crops gp). points c)"
    and "level g < 3" and "level g < length (levels g)"
  shows "\<exists>g'. update dt now g = Some (Inr g') \<and> state g' = PLAYING \<and>
           level g' = level g + 1 \<and>
           timeLeft g' = timeLimit (levels g ! level g) \<and>
           accumSpawn g' = 0 \<and> accumPowerUpSpawn g' = 0 \<and> accumCrowSpawn g' = 0 \<and>
           crops g' = [] \<and> powerUps g' = [] \<and> crows g' = [] \<and>
           length (obstacles g') = numScarecrows (levels g ! level g) \<and>
           requiredScore g' = requiredScore g + goal_cfg (levels g ! level g) \<and>
           goal g' = requiredScore g'"
proof -
  from spawn_all_frame [OF assms(3)] have
    fr: "state gp = PLAYING" "level gp = level g" "levels gp = levels g" "goal gp = goal g"
      "score gp = score g" "requiredScore gp = requiredScore g"
    using assms(1) by (auto simp: move_player_def countdown_def)
  let ?g2 = "gp\<lparr>crops := marked_crops gp, score := new_score gp\<rparr>"
  have "goal gp \<le> new_score gp" using assms(5) fr by (simp add: new_score_def)
  with collect_crops_some [OF assms(4)] assms(6) fr
  have c: "collect_crops gp = advanceLevel ?g2" by (simp add: Let_def)
  have "level ?g2 < 3" "level ?g2 < length (levels ?g2)" using assms(6,7) fr by simp_all
  from advanceLevel_result [OF this] obtain os where
    os: "length os = numScarecrows (levels g ! level g)" and
    adv: "advanceLevel ?g2 =
       Inr (?g2\<lparr>level := level g + 1,
              timeLeft := timeLimit (levels g ! level g),
              maxTime := timeLimit (levels g ! level g),
              crops := [], powerUps := [], crows := [],
              accumSpawn := 0, accumPowerUpSpawn := 0, accumCrowSpawn := 0,
              spawnEvery := spawnEvery_cfg (levels g ! level g),
              crowSpawnEvery := crowSpawnEvery_cfg (levels g ! level g),
              powerUpSpawnEvery := powerUpSpawnEvery_cfg (levels g ! level g),
              requiredScore := requiredScore g + goal_cfg (levels g ! level g),
              goal := requiredScore g + goal_cfg (levels g ! level g),
              obstacles := os,
              rng_pos := rng_pos gp + 2 * numScarecrows (levels g ! level g)\<rparr>)"
    (is "_ = Inr ?g3")
    using fr by auto
  have "crop_step dt gp = Inr ?g3"
    by (simp add: crop_step_def c adv update_crops_def purge_crops_def)
  then have "collisions dt now gp = Inr ?g3"
    by (simp add: collisions_def powerUp_step_idle crow_step_idle)
  then have "update dt now g = Some (Inr ?g3)"
    using update_playing [OF assms(1,2)] assms(3) by simp
  then show ?thesis using os fr by (intro exI [of _ ?g3]) simp
qed

lemma update_win:
  assumes "state g = PLAYING" and "0 < clamp (timeLeft g - dt) 0 (maxTime g)"
    and "spawn_all dt (move_player dt now (countdown dt g)) = Some gp"
    and "\<exists>c\<in>set (crops gp). aabb (player gp) c"
    and "goal g \<le> score g + (\<Sum>c\<leftarrow>filter (\<lambda>c. aabb (player gp) c) (crops gp). points c)"
    and "3 \<le> level g"
  shows "\<exists>g'. update dt now g = Some (Inr g') \<and> state g' = WIN \<and> level g' = level g"
proof -
  from spawn_all_frame [OF assms(3)] have
    fr: "level gp = level g" "goal gp = goal g" "score gp = score g"
    by (auto simp: move_player_def countdown_def)
  let ?g2 = "gp\<lparr>crops := marked_crops gp, score := new_score gp\<rparr>"
  have "goal gp \<le> new_score gp" using assms(5) fr by (simp add: new_score_def)
  with collect_crops_some [OF assms(4)] assms(6) fr
  have c: "collect_crops gp = Inr (?g2\<lparr>state := WIN\<rparr>)" by (simp add: Let_def)
  let ?g3 = "update_crops dt (purge_crops (?g2\<lparr>state := WIN\<rparr>))"
  have "collisions dt now gp = Inr (crow_step dt (powerUp_step dt now ?g3))"
    by (simp add: collisions_def crop_step_def c)
  then have "update dt now g = Some (Inr (crow_step dt (powerUp_step dt now ?g3)))"
    using update_playing [OF assms(1,2)] assms(3) by simp
  moreover have "state ?g3 = WIN" "level ?g3 = level g"
    using fr by (simp_all add: update_crops_def purge_crops_def)
  ultimately show ?thesis using after_crops_frame [of dt now ?g3] by simp
qed

lemma update_no_advance:
  assumes "state g = PLAYING" and "0 < clamp (timeLeft g - dt) 0 (maxTime g)"
    and "spawn_all dt (move_player dt now (countdown dt g)) = Some gp"
    and "\<not> (\<exists>c\<in>set (crops gp). aabb (player gp) c) \<or>
         score g + (\<Sum>c\<leftarrow>filter (\<lambda>c. aabb (player gp) c) (crops gp). points c) < goal g"
  shows "\<exists>g'. update dt now g = Some (Inr g') \<and> state g' = PLAYING \<and>
           level g' = level g \<and> goal g' = goal g"
proof -
  from spawn_all_frame [OF assms(3)] have
    fr: "state gp = PLAYING" "level gp = level g" "goal gp = goal g" "score gp = score g"
    using assms(1) by (auto simp: move_player_def countdown_def)
  have "\<exists>g1. collect_crops gp = Inr g1 \<and> state g1 = PLAYING \<and> level g1 = level g \<and>
          goal g1 = goal g"
  proof (cases "\<exists>c\<in>set (crops gp). aabb (player gp) c")
    case False
    then have "collect_crops gp = Inr gp" by (rule collect_crops_none)
    with fr show ?thesis by simp
  next
    case True
    with assms(4) fr have "\<not> goal gp \<le> new_score gp" by (simp add: new_score_def)
    with collect_crops_some [OF True]
    have "collect_crops gp = Inr (gp\<lparr>crops := marked_crops gp, score := new_score gp\<rparr>)"
      by (simp add: Let_def)
    with fr show ?thesis by simp
  qed
  then obtain g1 where g1: "collect_crops gp = Inr g1" "state g1 = PLAYING"
    "level g1 = level g" "goal g1 = goal g"
    by blast
  let ?g3 = "update_crops dt (purge_crops g1)"
  have "collisions dt now gp = Inr (crow_step dt (powerUp_step dt now ?g3))"
    by (simp add: collisions_def crop_step_def g1(1))
  then have "update dt now g = Some (Inr (crow_step dt (powerUp_step dt now ?g3)))"
    using update_playing [OF assms(1,2)] assms(3) by simp
  moreover have "state ?g3 = PLAYING" "level ?g3 = level g" "goal ?g3 = goal g"
    using g1 by (simp_all add: update_crops_def purge_crops_def)
  ultimately show ?thesis using after_crops_frame [of dt now ?g3] by simp
qed

text \<open>Without an entry for the next level the advance throws.\<close>

lemma update_advance_throws:
  assumes "state g = PLAYING" and "0 < clamp (timeLeft g - dt) 0 (maxTime g)"
    and "spawn_all dt (move_player dt now (countdown dt g)) = Some gp"
    and "\<exists>c\<in>set (crops gp). aabb (player gp) c"
    and "goal g \<le> score g + (\<Sum>c\<leftarrow>filter (\<lambda>c. aabb (player gp) c) (crops gp). points c)"
    and "level g < 3" and "length (levels g) \<le> level g"
  shows "update dt now g = Some (Inl TypeError)"
proof -
  from spawn_all_frame [OF assms(3)] have
    fr: "level gp = level g" "levels gp = levels g" "goal gp = goal g" "score gp = score g"
    by (auto simp: move_player_def countdown_def)
  let ?g2 = "gp\<lparr>crops := marked_crops gp, score := new_score gp\<rparr>"
  have "goal gp \<le> new_score gp" using assms(5) fr by (simp add: new_score_def)
  with collect_crops_some [OF assms(4)] assms(6) fr
  have c: "collect_crops gp = advanceLevel ?g2" by (simp add: Let_def)
  have "level ?g2 < 3" "length (levels ?g2) \<le> level ?g2" using assms(6,7) fr by simp_all
  then have "advanceLevel ?g2 = Inl TypeError" by (rule advanceLevel_error)
  with c have "collisions dt now gp = Inl TypeError"
    by (simp add: collisions_def crop_step_def)
  then show ?thesis using update_playing [OF assms(1,2)] assms(3) by simp
qed

text \<open>The run from \<open>goal_reached\<close> to \<open>overshoot\<close>.\<close>

lemma overshoot_reachable:
  "update 0.033 7 goal_reached = Some (Inr overshoot)"
  by (simp add: eval_defs goal_reached_def overshoot_def spawn_all_idle numeral_3_eq_3)

text \<open>
  Claim C2 as stated fails: in \<open>overshoot\<close>, a state that an update reaches from
  \<open>goal_reached\<close>, the score 39 is at least the goal 35 and the level is 2, and the
  next update neither advances the level nor wins, since it collects no crop.
\<close>

theorem level_advance_counterexample:
  "state overshoot = PLAYING \<and> goal overshoot \<le> score overshoot \<and> level overshoot = 2 \<and>
   0 < clamp (timeLeft overshoot - 0.033) 0 (maxTime overshoot) \<and>
   update 0.033 7 overshoot = Some (Inr overshoot_spawned) \<and>
   level overshoot_spawned = 2 \<and> state overshoot_spawned = PLAYING \<and>
   goal overshoot_spawned = 35 \<and> score overshoot_spawned = 39"
  by (simp add: eval_defs overshoot_def overshoot_spawned_def spawn_all_idle)

text \<open>
  Claim C2, amended. The goal is checked only in an update that passes the time
  check and collects at least one crop, against the score with the collected points
  added. If that score reaches the goal and the level is below 3 (and the
  configuration has an entry for the next level), the level grows by exactly 1,
  \<open>timeLeft\<close> is the new level's time limit, the three accumulators are 0, the crop,
  power-up and crow lists are empty, the obstacle list has the new level's count and
  the new level's goal is added to the cumulative goal; at level 3 or above the
  state becomes WIN. An update that collects no crop, or whose new score is below the
  goal, leaves level and state as they are, whatever the old score. In every update
  the level does not decrease, grows by at most 1 and stays at most 3 when it was.
\<close>

theorem level_advance_on_collection:
  "(state g = PLAYING \<and> 0 < clamp (timeLeft g - dt) 0 (maxTime g) \<and>
    spawn_all dt (move_player dt now (countdown dt g)) = Some gp \<longrightarrow>
      ((\<exists>c\<in>set (crops gp). aabb (player gp) c) \<and>
       goal g \<le> score g + (\<Sum>c\<leftarrow>filter (\<lambda>c. aabb (player gp) c) (crops gp). points c) \<and>
       level g < 3 \<and> level g < length (levels g) \<longrightarrow>
         (\<exists>g'. update dt now g = Some (Inr g') \<and> state g' = PLAYING \<and>
            level g' = level g + 1 \<and>
            timeLeft g' = timeLimit (levels g ! level g) \<and>
            accumSpawn g' = 0 \<and> accumPowerUpSpawn g' = 0 \<and> accumCrowSpawn g' = 0 \<and>
            crops g' = [] \<and> powerUps g' = [] \<and> crows g' = [] \<and>
            length (obstacles g') = numScarecrows (levels g ! level g) \<and>
            requiredScore g' = requiredScore g + goal_cfg (levels g ! level g) \<and>
            goal g' = requiredScore g')) \<and>
      ((\<exists>c\<in>set (crops gp). aabb (player gp) c) \<and>
       goal g \<le> score g + (\<Sum>c\<leftarrow>filter (\<lambda>c. aabb (player gp) c) (crops gp). points c) \<and>
       3 \<le> level g \<longrightarrow>
         (\<exists>g'. update dt now g = Some (Inr g') \<and> state g' = WIN \<and> level g' = level g)) \<and>
      (\<not> (\<exists>c\<in>set (crops gp). aabb (player gp) c) \<or>
       score g + (\<Sum>c\<leftarrow>filter (\<lambda>c. aabb (player gp) c) (crops gp). points c) < goal g \<longrightarrow>
         (\<exists>g'. update dt now g = Some (Inr g') \<and> state g' = PLAYING \<and>
            level g' = level g \<and> goal g' = goal g))) \<and>
   (\<forall>r. update dt now g = Some (Inr r) \<longrightarrow>
      level g \<le> level r \<and> level r \<le> level g + 1 \<and> (level g \<le> 3 \<longrightarrow> level r \<le> 3))"
  using update_advance [of g dt now gp] update_win [of g dt now gp]
    update_no_advance [of g dt now gp] update_level [of dt now g]
  by blast

theorem level_advance_on_collection_witness:
  "(state goal_reached = PLAYING \<and>
    0 < clamp (timeLeft goal_reached - 0.033) 0 (maxTime goal_reached) \<and>
    spawn_all 0.033 (move_player 0.033 7 (countdown 0.033 goal_reached)) =
      Some goal_reached_spawned \<and>
    (\<exists>c\<in>set (crops goal_reached_spawned). aabb (player goal_reached_spawned) c) \<and>
    goal goal_reached \<le> score goal_reached + 25 \<and>
    level goal_reached < 3 \<and> level goal_reached < length (levels goal_reached) \<and>
    (\<exists>g'. update 0.033 7 goal_reached = Some (Inr g') \<and> level g' = 2 \<and> timeLeft g' = 55 \<and>
       crops g' = [] \<and> length (obstacles g') = 3 \<and> goal g' = 35)) \<and>
   (state last_level = PLAYING \<and>
    0 < clamp (timeLeft last_level - 0.033) 0 (maxTime last_level) \<and>
    spawn_all 0.033 (move_player 0.033 7 (countdown 0.033 last_level)) =
      Some last_level_spawned \<and>
    (\<exists>c\<in>set (crops last_level_spawned). aabb (player last_level_spawned) c) \<and>
    goal last_level \<le> score last_level + 1 \<and> 3 \<le> level last_level \<and>
    (\<exists>g'. update 0.033 7 last_level = Some (Inr g') \<and> state g' = WIN \<and> level g' = 3)) \<and>
   (state overshoot = PLAYING \<and>
    0 < clamp (timeLeft overshoot - 0.033) 0 (maxTime overshoot) \<and>
    spawn_all 0.033 (move_player 0.033 7 (countdown 0.033 overshoot)) =
      Some overshoot_spawned \<and>
    \<not> (\<exists>c\<in>set (crops overshoot_spawned). aabb (player overshoot_spawned) c) \<and>
    (\<exists>g'. update 0.033 7 overshoot = Some (Inr g') \<and> state g' = PLAYING \<and> level g' = 2)) \<and>
   (\<exists>r. update 0.033 7 goal_reached = Some (Inr r) \<and> level goal_reached \<le> level r \<and>
      level r \<le> 3)"
proof -
  have a: "spawn_all 0.033 (move_player 0.033 7 (countdown 0.033 goal_reached)) =
      Some goal_reached_spawned"
    by (simp add: eval_defs goal_reached_def goal_reached_spawned_def spawn_all_idle)
  have b: "spawn_all 0.033 (move_player 0.033 7 (countdown 0.033 last_level)) =
      Some last_level_spawned"
    by (simp add: eval_defs last_level_def last_level_spawned_def spawn_all_idle)
  have c: "spawn_all 0.033 (move_player 0.033 7 (countdown 0.033 overshoot)) =
      Some overshoot_spawned"
    by (simp add: eval_defs overshoot_def overshoot_spawned_def spawn_all_idle)
  have a': "state goal_reached = PLAYING"
    "0 < clamp (timeLeft goal_reached - 0.033) 0 (maxTime goal_reached)"
    "\<exists>c\<in>set (crops goal_reached_spawned). aabb (player goal_reached_spawned) c"
    "score goal_reached +
       (\<Sum>c\<leftarrow>filter (\<lambda>c. aabb (player goal_reached_spawned) c) (crops goal_reached_spawned).
          points c) = score goal_reached + 25"
    "goal goal_reached \<le> score goal_reached + 25"
    "level goal_reached < 3" "level goal_reached < length (levels goal_reached)"
    "levels goal_reached ! level goal_reached = default_levels ! 1"
    "level goal_reached = 1" "requiredScore goal_reached = 15"
    by (simp_all add: eval_defs goal_reached_def goal_reached_spawned_def)
  have b': "state last_level = PLAYING"
    "0 < clamp (timeLeft last_level - 0.033) 0 (maxTime last_level)"
    "\<exists>c\<in>set (crops last_level_spawned). aabb (player last_level_spawned) c"
    "score last_level +
       (\<Sum>c\<leftarrow>filter (\<lambda>c. aabb (player last_level_spawned) c) (crops last_level_spawned).
          points c) = score last_level + 1"
    "goal last_level \<le> score last_level + 1" "3 \<le> level last_level" "level last_level = 3"
    by (simp_all add: eval_defs last_level_def last_level_spawned_def)
  have c': "state overshoot = PLAYING"
    "0 < clamp (timeLeft overshoot - 0.033) 0 (maxTime overshoot)"
    "\<not> (\<exists>c\<in>set (crops overshoot_spawned). aabb (player overshoot_spawned) c)"
    "level overshoot = 2"
    by (simp_all add: eval_defs overshoot_def overshoot_spawned_def)
  note A = level_advance_on_collection [of goal_reached "0.033" 7 goal_reached_spawned]
  note B = level_advance_on_collection [of last_level "0.033" 7 last_level_spawned]
  note C = level_advance_on_collection [of overshoot "0.033" 7 overshoot_spawned]
  from A a a' have "\<exists>g'. update 0.033 7 goal_reached = Some (Inr g') \<and> level g' = 2 \<and>
       timeLeft g' = 55 \<and> crops g' = [] \<and> length (obstacles g') = 3 \<and> goal g' = 35"
    by (auto simp: default_levels_def)
  moreover from A this have "\<exists>r. update 0.033 7 goal_reached = Some (Inr r) \<and>
      level goal_reached \<le> level r \<and> level r \<le> 3"
    using a'(9) by auto
  moreover from B b b' have
    "\<exists>g'. update 0.033 7 last_level = Some (Inr g') \<and> state g' = WIN \<and> level g' = 3"
    by auto
  moreover from C c c' have
    "\<exists>g'. update 0.033 7 overshoot = Some (Inr g') \<and> state g' = PLAYING \<and> level g' = 2"
    by auto
  ultimately show ?thesis using a b c a' b' c' by blast
qed

section \<open>Order of the collision pass\<close>

text \<open>
  Claim C3 as stated fails: for \<open>busy\<close>, the state that the crop block hands to the
  power-up block has the collected pumpkin purged and the wheat updated already,
  while the power-up over the player is still alive in its list and the crow has
  not moved yet. The purge is not one final step, and the pass does not start after
  all entity updates.
\<close>

theorem collision_pass_counterexample:
  "crop_step 0.033 busy = Inr busy_after_crops \<and>
   collisions 0.033 7 busy = Inr (crow_step 0.033 (powerUp_step 0.033 7 busy_after_crops)) \<and>
   crops busy_after_crops = [Crop_update 0.033 (new_Crop 450 270 ''wheat'' 0)] \<and>
   sway (Crop_update 0.033 (new_Crop 450 270 ''wheat'' 0)) =
     sway (new_Crop 450 270 ''wheat'' 0) + 0.066 \<and>
   powerUps busy_after_crops = [new_PowerUp 450 480 0] \<and>
   aabb (player busy_after_crops) (new_PowerUp 450 480 0) \<and>
   \<not> dead (new_PowerUp 450 480 0) \<and>
   crows busy_after_crops = [new_Crow 30 30 (1 / 2) (1 / 2) 0] \<and>
   powerUps (powerUp_step 0.033 7 busy_after_crops) = []"
  by (simp add: eval_defs busy_def busy_after_crops_def new_PowerUp_def new_Crow_def
        Crop_update_def PowerUp_update_def)

text \<open>
  Claim C3, amended. An update that passes the time check runs, after the player
  block and the spawn loops, one block per class, once and in this order: crops,
  power-ups, crows. The crop block collects the overlapping crops, purges them and
  updates the remaining ones, and (without a level advance) leaves power-ups, crows
  and the player alone; the power-up block only then collects, purges and updates
  the power-ups, leaving crops, crows and score alone; the crow block moves the
  crows first, then removes the overlapping ones, leaving crops, power-ups and the
  player alone. Each purge belongs to its own block.
\<close>

theorem collision_pass_order:
  "(state g0 = PLAYING \<and> 0 < clamp (timeLeft g0 - dt) 0 (maxTime g0) \<and>
    spawn_all dt (move_player dt now (countdown dt g0)) = Some g \<longrightarrow>
      update dt now g0 = Some (collisions dt now g)) \<and>
   collisions dt now g =
     (case crop_step dt g of
        Inl e \<Rightarrow> Inl e
      | Inr g1 \<Rightarrow> Inr (crow_step dt (powerUp_step dt now g1))) \<and>
   (crop_step dt g = Inr g1 \<and> level g1 = level g \<longrightarrow>
      crops g1 = map (Crop_update dt)
                   (filter (\<lambda>c. \<not> aabb (player g) c \<and> \<not> dead c) (crops g)) \<and>
      powerUps g1 = powerUps g \<and> crows g1 = crows g \<and> player g1 = player g) \<and>
   (powerUps (powerUp_step dt now g1) =
      map (PowerUp_update dt)
        (filter (\<lambda>p. \<not> aabb (player g1) p \<and> \<not> dead p) (powerUps g1)) \<and>
    crops (powerUp_step dt now g1) = crops g1 \<and>
    crows (powerUp_step dt now g1) = crows g1 \<and>
    score (powerUp_step dt now g1) = score g1) \<and>
   (crows (crow_step dt g2) =
      filter (\<lambda>c. \<not> aabb (player g2) c \<and> \<not> dead c)
        (fst (update_crows dt (rng g2) (crows g2) (rng_pos g2))) \<and>
    crops (crow_step dt g2) = crops g2 \<and>
    powerUps (crow_step dt g2) = powerUps g2 \<and>
    player (crow_step dt g2) = player g2)"
proof -
  have 1: "update dt now g0 = Some (collisions dt now g)"
    if "state g0 = PLAYING \<and> 0 < clamp (timeLeft g0 - dt) 0 (maxTime g0) \<and>
        spawn_all dt (move_player dt now (countdown dt g0)) = Some g"
    using that update_playing [of g0 dt now] by simp
  have 2: "collisions dt now g =
     (case crop_step dt g of
        Inl e \<Rightarrow> Inl e
      | Inr g1 \<Rightarrow> Inr (crow_step dt (powerUp_step dt now g1)))"
    by (simp add: collisions_def)
  have 3: "crops g1 = map (Crop_update dt)
                   (filter (\<lambda>c. \<not> aabb (player g) c \<and> \<not> dead c) (crops g)) \<and>
      powerUps g1 = powerUps g \<and> crows g1 = crows g \<and> player g1 = player g"
    if "crop_step dt g = Inr g1 \<and> level g1 = level g"
    using that crop_step_shape [of dt g g1] by simp
  have 4: "powerUps (powerUp_step dt now g1) =
      map (PowerUp_update dt)
        (filter (\<lambda>p. \<not> aabb (player g1) p \<and> \<not> dead p) (powerUps g1)) \<and>
    crops (powerUp_step dt now g1) = crops g1 \<and>
    crows (powerUp_step dt now g1) = crows g1 \<and>
    score (powerUp_step dt now g1) = score g1"
    by (simp add: powerUp_step_shape)
  have 5: "crows (crow_step dt g2) =
      filter (\<lambda>c. \<not> aabb (player g2) c \<and> \<not> dead c)
        (fst (update_crows dt (rng g2) (crows g2) (rng_pos g2))) \<and>
    crops (crow_step dt g2) = crops g2 \<and>
    powerUps (crow_step dt g2) = powerUps g2 \<and>
    player (crow_step dt g2) = player g2"
    by (simp add: crow_step_shape Let_def)
  from 1 2 3 4 5 show ?thesis by blast
qed

theorem collision_pass_order_witness:
  "state busy_start = PLAYING \<and>
   0 < clamp (timeLeft busy_start - 0.033) 0 (maxTime busy_start) \<and>
   spawn_all 0.033 (move_player 0.033 7 (countdown 0.033 busy_start)) = Some busy_spawned \<and>
   update 0.033 7 busy_start = Some (collisions 0.033 7 busy_spawned) \<and>
   crop_step 0.033 busy_spawned = Inr (busy_spawned\<lparr>score := 3,
       crops := [Crop_update 0.033 (new_Crop 450 270 ''wheat'' 0)]\<rparr>) \<and>
   level (busy_spawned\<lparr>score := 3,
       crops := [Crop_update 0.033 (new_Crop 450 270 ''wheat'' 0)]\<rparr>) = level busy_spawned \<and>
   powerUps (busy_spawned\<lparr>score := 3,
       crops := [Crop_update 0.033 (new_Crop 450 270 ''wheat'' 0)]\<rparr>) = powerUps busy_spawned"
proof -
  let ?g1 = "busy_spawned\<lparr>score := 3,
       crops := [Crop_update 0.033 (new_Crop 450 270 ''wheat'' 0)]\<rparr>"
  have a: "state busy_start = PLAYING"
    "0 < clamp (timeLeft busy_start - 0.033) 0 (maxTime busy_start)"
    by (simp_all add: eval_defs busy_start_def busy_def)
  have b: "spawn_all 0.033 (move_player 0.033 7 (countdown 0.033 busy_start)) = Some busy_spawned"
    by (simp add: eval_defs busy_start_def busy_spawned_def busy_def spawn_all_idle)
  have c: "crop_step 0.033 busy_spawned = Inr ?g1"
    by (simp add: eval_defs busy_spawned_def busy_def Crop_update_def)
  have d: "level ?g1 = level busy_spawned" by simp
  from collision_pass_order [of busy_start "0.033" 7 busy_spawned ?g1] a b c d
  show ?thesis by simp
qed

end
